theory Spec2Isabelle
  imports
    Complex_Main
    "HOL-Library.Char_ord"
    "HOL-Library.List_Lexorder"
    "HOL-Library.Product_Lexorder"
begin

section \<open>Data model\<close>

text \<open>
  A pandas \<^verbatim>\<open>Timestamp\<close> is read through three of its attributes only: its integer
  value (here in seconds since the epoch; comparison and subtraction go through it), the
  calendar month \<^verbatim>\<open>.dt.month\<close> and, for the time difference, \<^verbatim>\<open>.days\<close>. The calendar
  that links the value to the month is pandas' own and is not modelled: both attributes
  are fields.
\<close>

record timestamp =
  ts_value :: int
  ts_month :: nat

text \<open>\<^verbatim>\<open>(a - b).days\<close>: the whole days of a time difference, rounded down.\<close>

definition days_between :: "timestamp \<Rightarrow> timestamp \<Rightarrow> int" where
  "days_between a b = (ts_value a - ts_value b) div 86400"

text \<open>\<^verbatim>\<open>.dt.date\<close>: the calendar day of a timestamp.\<close>

definition ts_date :: "timestamp \<Rightarrow> int" where
  "ts_date t = ts_value t div 86400"

text \<open>Python's \<^verbatim>\<open>max(a, b)\<close>: the second argument only when it is strictly greater.\<close>

definition py_max :: "timestamp \<Rightarrow> timestamp \<Rightarrow> timestamp" where
  "py_max a b = (if ts_value a < ts_value b then b else a)"

text \<open>\<^verbatim>\<open>Series.max()\<close> of a date column holding \<open>t\<close> and then \<open>ts\<close>.\<close>

definition series_max :: "timestamp \<Rightarrow> timestamp list \<Rightarrow> timestamp" where
  "series_max t ts = fold (\<lambda>x m. py_max m x) ts t"

text \<open>
  One validated billing line, with the eleven columns of the input. The Vietnamese column
  labels of the source are written without diacritics: \<^verbatim>\<open>So Luong\<close> (quantity),
  \<^verbatim>\<open>Don Gia\<close> (unit price), \<^verbatim>\<open>DS Da Tru CK\<close> (net amount after discount) and
  \<^verbatim>\<open>Ten TDV\<close> (sales representative). A text column that pandas holds as NaN is
  \<open>None\<close>. Amounts are real numbers: rounding and overflow of 64-bit floats are not
  modelled, the special values of a float division are (see \<open>float64\<close> below).
\<close>

record transaction =
  billing_date :: timestamp
  customer :: string
  name :: "string option"
  material :: string
  item_description :: "string option"
  so_luong :: real
  don_gia :: real
  ds_da_tru_ck :: real
  program :: "string option"
  product_hierarchy :: "string option"
  ten_tdv :: "string option"

section \<open>Loading and validating one file (\<^verbatim>\<open>data_processing.py\<close>)\<close>

definition required_columns :: "string list" where
  "required_columns =
     [''Billing Date'', ''Customer'', ''Name'', ''Material'', ''Item Description'',
      ''So Luong'', ''Don Gia'', ''DS Da Tru CK'', ''Program'', ''Product Hierarchy'',
      ''Ten TDV'']"

text \<open>
  \<^verbatim>\<open>.str.replace(r"\.0+$", "", regex=True)\<close>, which is Python's \<^verbatim>\<open>re.sub\<close> on each value.
  \<open>zero_tail cs\<close> matches \<^verbatim>\<open>0+$\<close> at the start of \<open>cs\<close>: one or more zeros, then the end
  of the string or the newline that ends the string (where Python's \<^verbatim>\<open>$\<close> also matches);
  it returns what the match leaves. The scan keeps every character up to the leftmost dot
  at which the pattern matches; there can be no second match after it.
\<close>

definition zero_tail :: "string \<Rightarrow> string option" where
  "zero_tail cs =
     (let rest = dropWhile (\<lambda>c. c = CHR ''0'') cs
      in if takeWhile (\<lambda>c. c = CHR ''0'') cs \<noteq> [] \<and> (rest = [] \<or> rest = [CHR 0x0A])
         then Some rest else None)"

fun str_replace_zero_tail :: "string \<Rightarrow> string" where
  "str_replace_zero_tail [] = []"
| "str_replace_zero_tail (c # cs) =
     (if c = CHR ''.'' then
        (case zero_tail cs of
           Some rest \<Rightarrow> rest
         | None \<Rightarrow> c # str_replace_zero_tail cs)
      else c # str_replace_zero_tail cs)"

text \<open>
  The normalisation of the \<^verbatim>\<open>Customer\<close> and \<^verbatim>\<open>Material\<close> columns:
  \<^verbatim>\<open>df[col].astype(str).str.replace(...)\<close>. How pandas prints a raw cell
  (\<^verbatim>\<open>astype(str)\<close>) is a parameter.
\<close>

definition normalize_id :: "('c \<Rightarrow> string) \<Rightarrow> 'c \<Rightarrow> string" where
  "normalize_id astype_str v = str_replace_zero_tail (astype_str v)"

text \<open>\<^verbatim>\<open>.round(2)\<close>: to two decimals, a tie going to the even neighbour.\<close>

definition round_half_even :: "real \<Rightarrow> int" where
  "round_half_even x =
     (let f = \<lfloor>x\<rfloor>; d = x - of_int f
      in if d < 1 / 2 then f else if 1 / 2 < d then f + 1 else if even f then f else f + 1)"

definition round2 :: "real \<Rightarrow> real" where
  "round2 x = of_int (round_half_even (x * 100)) / 100"

text \<open>
  The table \<^verbatim>\<open>pd.read_excel\<close> returns: its column names and its rows. A row holds a raw
  cell of type \<open>'c\<close> for each column the loader coerces and the text (or NaN) of each
  column it carries through; the loader reads a row only after it has found every
  required column among \<open>columns\<close>.
\<close>

record 'c raw_row =
  raw_billing_date :: 'c
  raw_customer :: 'c
  raw_name :: "string option"
  raw_material :: 'c
  raw_item_description :: "string option"
  raw_so_luong :: 'c
  raw_don_gia :: 'c
  raw_ds_da_tru_ck :: 'c
  raw_program :: "string option"
  raw_product_hierarchy :: "string option"
  raw_ten_tdv :: "string option"

record 'c raw_table =
  columns :: "string list"
  rows :: "'c raw_row list"

text \<open>
  The three pandas coercions the loader applies to raw cells:
  \<^verbatim>\<open>pd.to_datetime(dayfirst=True, errors="coerce")\<close>, \<^verbatim>\<open>astype(str)\<close> and
  \<^verbatim>\<open>pd.to_numeric(errors="coerce")\<close>; \<open>None\<close> is the missing value a failed coercion gives.
\<close>

record 'c coercions =
  to_datetime :: "'c \<Rightarrow> timestamp option"
  astype_str :: "'c \<Rightarrow> string"
  to_numeric :: "'c \<Rightarrow> real option"

text \<open>
  The loader returns \<^verbatim>\<open>None\<close> on two paths, told apart here by the message it logs:
  missing columns (with their names), and any exception (with its text). The warnings
  carry the original positions of the dropped rows.
\<close>

datatype load_error = SchemaError string "string list" | ProcessingError string string

datatype load_warning = InvalidDates "nat list" | InvalidNumbers "nat list"

definition numeric_cols :: "'c coercions \<Rightarrow> 'c raw_row \<Rightarrow> (real \<times> real \<times> real) option" where
  "numeric_cols cv r =
     (case (to_numeric cv (raw_so_luong r), to_numeric cv (raw_don_gia r),
            to_numeric cv (raw_ds_da_tru_ck r)) of
        (Some q, Some p, Some a) \<Rightarrow> Some (q, p, a)
      | _ \<Rightarrow> None)"

definition clean_row :: "'c coercions \<Rightarrow> timestamp \<Rightarrow> real \<times> real \<times> real \<Rightarrow> 'c raw_row \<Rightarrow> transaction" where
  "clean_row cv d n r =
     (case n of (q, p, a) \<Rightarrow>
        \<lparr>billing_date = d,
         customer = normalize_id (astype_str cv) (raw_customer r),
         name = raw_name r,
         material = normalize_id (astype_str cv) (raw_material r),
         item_description = raw_item_description r,
         so_luong = q,
         don_gia = p,
         ds_da_tru_ck = round2 a,
         program = raw_program r,
         product_hierarchy = raw_product_hierarchy r,
         ten_tdv = raw_ten_tdv r\<rparr>)"

text \<open>
  \<open>file\<close> is what \<^verbatim>\<open>pd.read_excel(file)\<close> gives: the text of the exception it raised, or
  the table. Rows with an unparseable date are dropped first, then rows with a
  non-numeric quantity, price or amount.
\<close>

definition load_and_validate_data ::
  "'c coercions \<Rightarrow> string + 'c raw_table \<Rightarrow> string
     \<Rightarrow> load_error + (load_warning list \<times> transaction list)" where
  "load_and_validate_data cv file year_label =
     (case file of
        Inl msg \<Rightarrow> Inl (ProcessingError year_label msg)
      | Inr df \<Rightarrow>
          (let missing_cols = filter (\<lambda>col. col \<notin> set (columns df)) required_columns
           in if missing_cols \<noteq> [] then Inl (SchemaError year_label missing_cols)
              else
                (let indexed = zip [0 ..< length (rows df)] (rows df);
                     dated = map (\<lambda>(i, r). (i, to_datetime cv (raw_billing_date r), r)) indexed;
                     invalid_dates = map fst (filter (\<lambda>(i, d, r). d = None) dated);
                     with_dates = concat (map (\<lambda>(i, d, r).
                                     case d of None \<Rightarrow> [] | Some t \<Rightarrow> [(i, t, r)]) dated);
                     numbered = map (\<lambda>(i, t, r). (i, t, numeric_cols cv r, r)) with_dates;
                     invalid_numeric = map fst (filter (\<lambda>(i, t, n, r). n = None) numbered);
                     cleaned = concat (map (\<lambda>(i, t, n, r).
                                     case n of None \<Rightarrow> [] | Some v \<Rightarrow> [clean_row cv t v r]) numbered)
                 in Inr ((if invalid_dates \<noteq> [] then [InvalidDates invalid_dates] else []) @
                         (if invalid_numeric \<noteq> [] then [InvalidNumbers invalid_numeric] else []),
                         cleaned))))"

text \<open>
  The rows that survive cleaning, described directly: a row is kept when its date parses
  and its quantity, price and amount are numeric, and it is kept in its cleaned form.
\<close>

definition clean_rows :: "'c coercions \<Rightarrow> 'c raw_row list \<Rightarrow> transaction list" where
  "clean_rows cv rs =
     concat (map (\<lambda>r. case to_datetime cv (raw_billing_date r) of
                         None \<Rightarrow> []
                       | Some t \<Rightarrow>
                           (case numeric_cols cv r of
                              None \<Rightarrow> []
                            | Some v \<Rightarrow> [clean_row cv t v r])) rs)"

section \<open>The filters (\<^verbatim>\<open>main.py\<close> and the head of every tab)\<close>

text \<open>
  What the user has selected in the four sidebar widgets, and the \<^verbatim>\<open>filters\<close>
  dictionary \<^verbatim>\<open>main.py\<close> builds from it: an empty month selection is replaced there by
  all twelve months (\<^verbatim>\<open>selected_months or months\<close>), the other three selections are
  passed on as they are.
\<close>

record selection =
  selected_months :: "nat list"
  selected_customers :: "string list"
  selected_materials :: "string list"
  selected_tdvs :: "string list"

record filters =
  months :: "nat list"
  customers :: "string list"
  materials :: "string list"
  tdvs :: "string list"

definition month_options :: "nat list" where
  "month_options = [1 ..< 13]"

definition make_filters :: "selection \<Rightarrow> filters" where
  "make_filters sel =
     \<lparr>months = (if selected_months sel \<noteq> [] then selected_months sel else month_options),
      customers = selected_customers sel,
      materials = selected_materials sel,
      tdvs = selected_tdvs sel\<rparr>"

text \<open>\<^verbatim>\<open>Series.isin\<close> on a text column that may hold NaN: NaN is in no list of names.\<close>

definition isin_opt :: "string option \<Rightarrow> string list \<Rightarrow> bool" where
  "isin_opt v xs = (case v of None \<Rightarrow> False | Some s \<Rightarrow> s \<in> set xs)"

text \<open>
  The filtering every tab starts with (\<^verbatim>\<open>plot_overview\<close>, lines 61 to 71; the other tabs
  repeat it, \<^verbatim>\<open>plot_tdv_analysis\<close> with the three optional steps in another order). The
  month test is unconditional; the other three are skipped for an empty list.
\<close>

definition apply_filters :: "filters \<Rightarrow> transaction list \<Rightarrow> transaction list" where
  "apply_filters flt df =
     (let by_month = filter (\<lambda>t. ts_month (billing_date t) \<in> set (months flt)) df;
          by_customer = (if customers flt \<noteq> []
                         then filter (\<lambda>t. customer t \<in> set (customers flt)) by_month
                         else by_month);
          by_material = (if materials flt \<noteq> []
                         then filter (\<lambda>t. material t \<in> set (materials flt)) by_customer
                         else by_customer)
      in if tdvs flt \<noteq> []
         then filter (\<lambda>t. isin_opt (ten_tdv t) (tdvs flt)) by_material
         else by_material)"

section \<open>Sales tables with growth (\<^verbatim>\<open>visualizations.py\<close>)\<close>

text \<open>
  The value of a 64-bit float column after a division: a number, an infinity or NaN.
  \<open>float_div\<close> is the elementwise division of two finite numbers as numpy does it: a
  non-zero number over zero is an infinity of its sign, zero over zero is NaN.
\<close>

datatype float64 = Finite real | PosInf | NegInf | NaN

definition float_div :: "real \<Rightarrow> real \<Rightarrow> float64" where
  "float_div x y =
     (if y \<noteq> 0 then Finite (x / y)
      else if 0 < x then PosInf
      else if x < 0 then NegInf
      else NaN)"

text \<open>Multiplying by a positive constant (the source multiplies by 100).\<close>

definition float_scale :: "float64 \<Rightarrow> real \<Rightarrow> float64" where
  "float_scale v c = (case v of Finite r \<Rightarrow> Finite (r * c) | _ \<Rightarrow> v)"

text \<open>\<^verbatim>\<open>.replace([float('inf'), -float('inf')], 0)\<close>: NaN is not in the list.\<close>

definition replace_inf :: "float64 \<Rightarrow> float64" where
  "replace_inf v = (if v = PosInf \<or> v = NegInf then Finite 0 else v)"

text \<open>The growth column of a merged table, one row at a time.\<close>

definition row_growth :: "real \<Rightarrow> real \<Rightarrow> float64" where
  "row_growth prv cur = replace_inf (float_scale (float_div (cur - prv) prv) 100)"

text \<open>
  The growth of the headline metric and of a totals row:
  \<^verbatim>\<open>(curr - prev) / prev * 100 if prev else 0\<close>.
\<close>

definition growth_pct :: "real \<Rightarrow> real \<Rightarrow> real" where
  "growth_pct prv cur = (if prv \<noteq> 0 then (cur - prv) / prv * 100 else 0)"

text \<open>
  A cell of a displayed table: a float, or a string once \<^verbatim>\<open>fillna('')\<close> has replaced
  NaN. \<open>fillna_zero\<close> is \<^verbatim>\<open>fillna(0)\<close> on a label column: a missing label becomes the
  number 0.
\<close>

datatype cell = NumCell float64 | StrCell string

definition fillna_str :: "float64 \<Rightarrow> cell" where
  "fillna_str v = (if v = NaN then StrCell [] else NumCell v)"

definition fillna_zero :: "string option \<Rightarrow> cell" where
  "fillna_zero l = (case l of None \<Rightarrow> NumCell (Finite 0) | Some s \<Rightarrow> StrCell s)"

text \<open>\<^verbatim>\<open>'first'\<close>: the first value of the group that is not NaN, NaN if there is none.\<close>

fun first_valid :: "'a option list \<Rightarrow> 'a option" where
  "first_valid [] = None"
| "first_valid (None # xs) = first_valid xs"
| "first_valid (Some x # xs) = Some x"

text \<open>
  \<^verbatim>\<open>df.groupby(key).agg({'DS Da Tru CK': 'sum', label: 'first'}).reset_index()\<close>: one row
  per key in ascending order of the key, with the sum of the amounts and the first
  label of its rows. \<open>key\<close> is \<open>customer\<close> or \<open>material\<close>, a text column without NaN.
\<close>

definition groupby_sum_first ::
  "(transaction \<Rightarrow> string) \<Rightarrow> (transaction \<Rightarrow> string option) \<Rightarrow> transaction list
     \<Rightarrow> (string \<times> real \<times> string option) list" where
  "groupby_sum_first key label df =
     map (\<lambda>k. let grp = filter (\<lambda>t. key t = k) df
              in (k, sum_list (map ds_da_tru_ck grp), first_valid (map label grp)))
         (sort (remdups (map key df)))"

text \<open>
  \<^verbatim>\<open>prev.merge(curr, on=key, how='outer', suffixes=('_prev', '_curr'))\<close> of two grouped
  frames: one row for each key of either side, in ascending order; a side without the
  key is missing (NaN).
\<close>

definition merge_outer ::
  "(string \<times> 'v) list \<Rightarrow> (string \<times> 'v) list \<Rightarrow> (string \<times> 'v option \<times> 'v option) list" where
  "merge_outer prv cur =
     map (\<lambda>k. (k, map_of prv k, map_of cur k)) (sort (remdups (map fst prv @ map fst cur)))"

record 'g sales_row =
  entity :: string
  label_prev :: cell
  amount_prev :: real
  label_curr :: cell
  amount_curr :: real
  growth :: 'g

text \<open>
  \<open>merged_rows\<close> is \<^verbatim>\<open>customer_merged\<close> (or \<^verbatim>\<open>product_merged\<close>): the two grouped frames
  (an empty frame for an empty period), merged, \<^verbatim>\<open>fillna(0)\<close> on every column, and the
  growth column. The amount columns are float columns throughout, also the all-missing
  column of an empty period once \<^verbatim>\<open>fillna(0)\<close> has filled it (as in pandas 1 and 2).
\<close>

definition merged_rows ::
  "(transaction \<Rightarrow> string) \<Rightarrow> (transaction \<Rightarrow> string option) \<Rightarrow> transaction list
     \<Rightarrow> transaction list \<Rightarrow> float64 sales_row list" where
  "merged_rows key label df_prev df_curr =
     (let grouped_prev = (if df_prev \<noteq> [] then groupby_sum_first key label df_prev else []);
          grouped_curr = (if df_curr \<noteq> [] then groupby_sum_first key label df_curr else [])
      in map (\<lambda>(k, p, c).
                let a_prev = (case p of None \<Rightarrow> 0 | Some (a, l) \<Rightarrow> a);
                    a_curr = (case c of None \<Rightarrow> 0 | Some (a, l) \<Rightarrow> a)
                in \<lparr>entity = k,
                    label_prev = fillna_zero (case p of None \<Rightarrow> None | Some (a, l) \<Rightarrow> l),
                    amount_prev = a_prev,
                    label_curr = fillna_zero (case c of None \<Rightarrow> None | Some (a, l) \<Rightarrow> l),
                    amount_curr = a_curr,
                    growth = row_growth a_prev a_curr\<rparr>)
             (merge_outer grouped_prev grouped_curr))"

definition total_row :: "float64 sales_row list \<Rightarrow> float64 sales_row" where
  "total_row merged =
     \<lparr>entity = [],
      label_prev = StrCell [],
      amount_prev = sum_list (map amount_prev merged),
      label_curr = StrCell [],
      amount_curr = sum_list (map amount_curr merged),
      growth = Finite (growth_pct (sum_list (map amount_prev merged))
                                  (sum_list (map amount_curr merged)))\<rparr>"

text \<open>
  \<^verbatim>\<open>pd.concat([merged[...], total_row]).fillna('')\<close>: the displayed and exported table.
  After \<^verbatim>\<open>fillna(0)\<close> only the growth column can still hold NaN.
\<close>

definition fillna_row :: "float64 sales_row \<Rightarrow> cell sales_row" where
  "fillna_row r =
     \<lparr>entity = entity r, label_prev = label_prev r, amount_prev = amount_prev r,
      label_curr = label_curr r, amount_curr = amount_curr r,
      growth = fillna_str (growth r)\<rparr>"

definition sales_table ::
  "(transaction \<Rightarrow> string) \<Rightarrow> (transaction \<Rightarrow> string option) \<Rightarrow> transaction list
     \<Rightarrow> transaction list \<Rightarrow> cell sales_row list" where
  "sales_table key label df_prev df_curr =
     (let merged = merged_rows key label df_prev df_curr
      in map fillna_row (merged @ [total_row merged]))"

text \<open>The customer and product tables of the overview, product and customer tabs.\<close>

definition customer_table :: "transaction list \<Rightarrow> transaction list \<Rightarrow> cell sales_row list" where
  "customer_table df_prev df_curr = sales_table customer name df_prev df_curr"

definition product_table :: "transaction list \<Rightarrow> transaction list \<Rightarrow> cell sales_row list" where
  "product_table df_prev df_curr = sales_table material item_description df_prev df_curr"

text \<open>
  The table the sales-representative tab shows for each selected representative: the
  customer table of that representative's rows. The source takes the empty frame when
  the whole filtered period is empty and groups the representative's rows otherwise;
  grouping no rows gives the empty frame as well.
\<close>

definition tdv_customer_table ::
  "string \<Rightarrow> transaction list \<Rightarrow> transaction list \<Rightarrow> cell sales_row list" where
  "tdv_customer_table tdv df_prev df_curr =
     sales_table customer name (filter (\<lambda>t. ten_tdv t = Some tdv) df_prev)
                               (filter (\<lambda>t. ten_tdv t = Some tdv) df_curr)"

text \<open>
  Showing a table: \<^verbatim>\<open>st.dataframe(table.style.format({..., 'Tang truong (%)': '{:.2f}%'}))\<close>.
  The float format of the growth column raises \<^verbatim>\<open>ValueError\<close> on a cell that holds a string,
  as the empty string of \<^verbatim>\<open>fillna('')\<close> is; the two amount columns hold floats, which
  their format accepts. \<open>renders\<close> says that no cell makes the formatting raise.
\<close>

definition formats_as_float :: "cell \<Rightarrow> bool" where
  "formats_as_float c = (case c of NumCell v \<Rightarrow> True | StrCell s \<Rightarrow> False)"

definition renders :: "cell sales_row list \<Rightarrow> bool" where
  "renders tbl = list_all (\<lambda>r. formats_as_float (growth r)) tbl"

text \<open>
  The only frames keyed by sales representative (\<^verbatim>\<open>tdv_prev\<close> and \<^verbatim>\<open>tdv_curr\<close> of
  \<^verbatim>\<open>plot_tdv_analysis\<close>, the data of its two pie charts): for one filtered period,
  \<^verbatim>\<open>groupby('Ten TDV')['DS Da Tru CK'].sum().reset_index()\<close>, the empty frame for an empty
  period. The rows without a representative (NaN) belong to no group. The two frames
  are never merged, and no totals row is appended to them.
\<close>

definition tdv_sums :: "transaction list \<Rightarrow> (string \<times> real) list" where
  "tdv_sums df =
     (if df \<noteq> []
      then map (\<lambda>k. (k, sum_list (map ds_da_tru_ck (filter (\<lambda>t. ten_tdv t = Some k) df))))
               (sort (remdups (List.map_filter ten_tdv df)))
      else [])"

text \<open>The sum of the amounts of one entity in one period; 0 when it has no row there.\<close>

definition group_total :: "(transaction \<Rightarrow> string) \<Rightarrow> string \<Rightarrow> transaction list \<Rightarrow> real" where
  "group_total key k df = sum_list (map ds_da_tru_ck (filter (\<lambda>t. key t = k) df))"

section \<open>The overview tab: headline metrics\<close>

text \<open>\<^verbatim>\<open>df['DS Da Tru CK'].sum() if not df.empty else 0\<close>.\<close>

definition total_sales :: "transaction list \<Rightarrow> real" where
  "total_sales df = (if df \<noteq> [] then sum_list (map ds_da_tru_ck df) else 0)"

text \<open>
  The number of orders: the groups of \<^verbatim>\<open>groupby(['Customer', billing day])\<close>, that is the
  distinct pairs of customer and calendar day.
\<close>

definition num_orders :: "transaction list \<Rightarrow> nat" where
  "num_orders df =
     (if df \<noteq> [] then length (remdups (map (\<lambda>t. (customer t, ts_date (billing_date t))) df))
      else 0)"

text \<open>The monthly sums behind a bar chart, keyed by month and by one more column.\<close>

definition trend_by ::
  "(transaction \<Rightarrow> 'k::linorder) \<Rightarrow> transaction list \<Rightarrow> (nat \<times> 'k \<times> real) list" where
  "trend_by key df =
     map (\<lambda>(m, k). (m, k, sum_list (map ds_da_tru_ck
                          (filter (\<lambda>t. ts_month (billing_date t) = m \<and> key t = k) df))))
         (sort (remdups (map (\<lambda>t. (ts_month (billing_date t), key t)) df)))"

text \<open>What the overview tab puts on the page, in order.\<close>

datatype overview_item =
    OverviewNoDataWarning
  | RevenueMetric real real
  | OrdersMetric nat int
  | OverviewCustomerTable "cell sales_row list"
  | OverviewProductTable "cell sales_row list"
  | OverviewSalesChart "(nat \<times> unit \<times> real) list" "(nat \<times> unit \<times> real) list"
  | OverviewErrorMessage

text \<open>
  \<^verbatim>\<open>plot_overview\<close>. With both filtered periods empty it warns and returns. Otherwise it
  shows the two metrics (the current total with the growth, the current number of orders
  with its change), the customer table, the product table and the monthly chart. The
  body runs inside \<^verbatim>\<open>try\<close>: when showing a table raises, nothing after it runs and the
  \<^verbatim>\<open>except\<close> clause shows the error message instead.
\<close>

definition plot_overview ::
  "transaction list \<Rightarrow> transaction list \<Rightarrow> filters \<Rightarrow> overview_item list" where
  "plot_overview df_prev df_curr flt =
     (let df_prev_filtered = apply_filters flt df_prev;
          df_curr_filtered = apply_filters flt df_curr
      in if df_prev_filtered = [] \<and> df_curr_filtered = [] then [OverviewNoDataWarning]
         else
           [RevenueMetric (total_sales df_curr_filtered)
              (growth_pct (total_sales df_prev_filtered) (total_sales df_curr_filtered)),
            OrdersMetric (num_orders df_curr_filtered)
              (int (num_orders df_curr_filtered) - int (num_orders df_prev_filtered))] @
           (if renders (customer_table df_prev_filtered df_curr_filtered) then
              [OverviewCustomerTable (customer_table df_prev_filtered df_curr_filtered)] @
              (if renders (product_table df_prev_filtered df_curr_filtered) then
                 [OverviewProductTable (product_table df_prev_filtered df_curr_filtered),
                  OverviewSalesChart (trend_by (\<lambda>t. ()) df_prev_filtered)
                                     (trend_by (\<lambda>t. ()) df_curr_filtered)]
               else [OverviewErrorMessage])
            else [OverviewErrorMessage]))"

section \<open>RFM scoring (\<^verbatim>\<open>calculate_rfm\<close>)\<close>

text \<open>
  \<^verbatim>\<open>Series.quantile(q)\<close> with pandas' default linear interpolation, on the ascending
  values \<open>vs\<close>: the value at position \<open>(n - 1) * q\<close>, interpolated between its two
  neighbours. It is applied to columns with at least two values only.
\<close>

definition quantile :: "real list \<Rightarrow> real \<Rightarrow> real" where
  "quantile vs q =
     (let h = real (length vs - 1) * q; i = nat \<lfloor>h\<rfloor>
      in if Suc i < length vs then vs ! i + (h - real i) * (vs ! Suc i - vs ! i)
         else vs ! (length vs - 1))"

text \<open>\<^verbatim>\<open>bins.searchsorted(v, side='left')\<close> on ascending edges: how many edges lie below \<open>v\<close>.\<close>

definition searchsorted :: "real list \<Rightarrow> real \<Rightarrow> nat" where
  "searchsorted bins v = length (filter (\<lambda>b. b < v) bins)"

datatype rfm_error = InvalidInput | ValueError

text \<open>
  \<^verbatim>\<open>pd.qcut(x, q, labels, duplicates='drop')\<close> as pandas computes it
  (\<^verbatim>\<open>pandas/core/reshape/tile.py\<close>, \<^verbatim>\<open>qcut\<close> and \<^verbatim>\<open>_bins_to_cuts\<close>):
  \<^item> the edges are the quantiles of \<open>x\<close> at \<^verbatim>\<open>linspace(0, 1, q + 1)\<close>;
  \<^item> with \<^verbatim>\<open>duplicates='drop'\<close> equal edges are merged (the edges ascend, so \<open>remdups\<close>
    keeps them in order);
  \<^item> a value's bin is \<open>searchsorted\<close> of it, and 1 for the lowest edge itself
    (\<^verbatim>\<open>include_lowest\<close>); bin 0 and a bin past the last edge are NaN (\<open>None\<close>);
  \<^item> the labels must be as many as the bins, one fewer than the edges left, or pandas
    raises \<^verbatim>\<open>ValueError\<close> ("Bin labels must be one fewer than the number of bin edges").
\<close>

definition qcut :: "real list \<Rightarrow> nat \<Rightarrow> nat list \<Rightarrow> rfm_error + nat option list" where
  "qcut x q labels =
     (let quantiles = map (\<lambda>i. real i / real q) [0 ..< Suc q];
          bins = map (quantile (sort x)) quantiles;
          unique_bins = remdups bins;
          edges = (if length unique_bins < length bins \<and> length bins \<noteq> 2
                   then unique_bins else bins)
      in if length labels \<noteq> length edges - 1 then Inl ValueError
         else Inr (map (\<lambda>v. let ids = (if v = edges ! 0 then 1 else searchsorted edges v)
                             in if ids = length edges \<or> ids = 0 then None
                                else Some (labels ! (ids - 1))) x))"

text \<open>The five quartile edges of a column, before equal edges are merged.\<close>

definition quartile_edges :: "real list \<Rightarrow> real list" where
  "quartile_edges x = map (quantile (sort x)) [0, 1 / 4, 1 / 2, 3 / 4, 1]"

text \<open>The bin of a value of the column, when no edge was dropped.\<close>

definition bin_of :: "real list \<Rightarrow> real \<Rightarrow> nat" where
  "bin_of x v = (if v = quartile_edges x ! 0 then 1 else searchsorted (quartile_edges x) v)"

text \<open>
  One pass of the loop over \<^verbatim>\<open>['Recency', 'Frequency', 'Monetary']\<close>: the score 1 for a
  column with at most one distinct value, \<^verbatim>\<open>qcut\<close> into quartiles otherwise, with the
  labels reversed for recency.
\<close>

definition score_column :: "bool \<Rightarrow> real list \<Rightarrow> rfm_error + nat option list" where
  "score_column is_recency col =
     (if length (remdups col) \<le> 1 then Inr (map (\<lambda>v. Some 1) col)
      else qcut col 4 (if is_recency then [4, 3, 2, 1] else [1, 2, 3, 4]))"

text \<open>\<^verbatim>\<open>astype(str)\<close> of a score column: decimal digits, \<^verbatim>\<open>nan\<close> for NaN.\<close>

fun str_nat :: "nat \<Rightarrow> string" where
  "str_nat n =
     (if n < 10 then [''0123456789'' ! n]
      else str_nat (n div 10) @ [''0123456789'' ! (n mod 10)])"

declare str_nat.simps [simp del]

definition str_score :: "nat option \<Rightarrow> string" where
  "str_score s = (case s of None \<Rightarrow> ''nan'' | Some n \<Rightarrow> str_nat n)"

record rfm_metrics =
  m_customer :: string
  m_name :: string
  m_recency :: int
  m_frequency :: nat
  m_monetary :: real

record rfm_row =
  rfm_customer :: string
  rfm_name :: string
  recency :: int
  frequency :: nat
  monetary :: real
  recency_score :: "nat option"
  frequency_score :: "nat option"
  monetary_score :: "nat option"
  rfm_segment :: string

text \<open>
  \<^verbatim>\<open>df.groupby(['Customer', 'Name']).agg(...)\<close>: the groups are the pairs of customer and
  name in ascending order; pandas leaves out the rows whose name is NaN. A group holds
  at least one row, \<open>t\<close>, from which the latest date, the row count and the sum start.
\<close>

definition rfm_key :: "transaction \<Rightarrow> (string \<times> string) option" where
  "rfm_key t = map_option (Pair (customer t)) (name t)"

definition rfm_groups :: "transaction list \<Rightarrow> timestamp \<Rightarrow> rfm_metrics list" where
  "rfm_groups df latest =
     concat (map (\<lambda>k. case filter (\<lambda>t. rfm_key t = Some k) df of
                         [] \<Rightarrow> []
                       | t # ts \<Rightarrow>
                           [\<lparr>m_customer = fst k,
                             m_name = snd k,
                             m_recency = days_between latest
                                           (series_max (billing_date t) (map billing_date ts)),
                             m_frequency = Suc (length ts),
                             m_monetary = sum_list (map ds_da_tru_ck (t # ts))\<rparr>])
                 (sort (remdups (List.map_filter rfm_key df))))"

definition with_scores :: "rfm_metrics \<times> nat option \<times> nat option \<times> nat option \<Rightarrow> rfm_row" where
  "with_scores x =
     (case x of (g, r, f, m) \<Rightarrow>
        \<lparr>rfm_customer = m_customer g,
         rfm_name = m_name g,
         recency = m_recency g,
         frequency = m_frequency g,
         monetary = m_monetary g,
         recency_score = r,
         frequency_score = f,
         monetary_score = m,
         rfm_segment = str_score r @ str_score f @ str_score m\<rparr>)"

text \<open>
  \<^verbatim>\<open>calculate_rfm\<close> returns \<^verbatim>\<open>None\<close> for an empty frame (\<open>InvalidInput\<close>) and when
  anything in its body raises: the \<^verbatim>\<open>except Exception\<close> clause logs and shows the error
  and returns \<^verbatim>\<open>None\<close>. The only call of the body that can raise on a validated frame
  is \<^verbatim>\<open>pd.qcut\<close>. The columns are scored in the order of the loop, and the first error
  ends the function.
\<close>

definition calculate_rfm :: "transaction list \<Rightarrow> timestamp \<Rightarrow> rfm_error + rfm_row list" where
  "calculate_rfm df latest =
     (if df = [] then Inl InvalidInput
      else
        (let rfm = rfm_groups df latest
         in case score_column True (map (\<lambda>g. real_of_int (m_recency g)) rfm) of
              Inl e \<Rightarrow> Inl e
            | Inr rs \<Rightarrow>
                (case score_column False (map (\<lambda>g. real (m_frequency g)) rfm) of
                   Inl e \<Rightarrow> Inl e
                 | Inr fs \<Rightarrow>
                     (case score_column False (map m_monetary rfm) of
                        Inl e \<Rightarrow> Inl e
                      | Inr ms \<Rightarrow> Inr (map with_scores (zip rfm (zip rs (zip fs ms))))))))"

section \<open>The customer tab (\<^verbatim>\<open>plot_customer_analysis\<close>)\<close>

text \<open>
  The reference date of the RFM section: the later of the two unfiltered periods' latest
  billing dates when both periods have rows, the wall-clock time \<open>now\<close> otherwise.
\<close>

definition latest_date :: "timestamp \<Rightarrow> transaction list \<Rightarrow> transaction list \<Rightarrow> timestamp" where
  "latest_date now df_prev df_curr =
     (case (df_curr, df_prev) of
        (c # cs, p # ps) \<Rightarrow>
          py_max (series_max (billing_date c) (map billing_date cs))
                 (series_max (billing_date p) (map billing_date ps))
      | _ \<Rightarrow> now)"

record rfm_table_row =
  rt_customer :: string
  rt_name :: string
  rt_recency :: cell
  rt_frequency :: nat
  rt_monetary :: real
  rt_segment :: string

text \<open>
  The scored rows grouped again by customer alone (least recency, summed frequency and
  amount, first name and segment), and the totals row appended to them.
\<close>

definition rfm_by_customer :: "rfm_row list \<Rightarrow> rfm_table_row list" where
  "rfm_by_customer rfm =
     concat (map (\<lambda>k. case filter (\<lambda>r. rfm_customer r = k) rfm of
                         [] \<Rightarrow> []
                       | r # rs \<Rightarrow>
                           [\<lparr>rt_customer = k,
                             rt_name = rfm_name r,
                             rt_recency = NumCell (Finite (real_of_int
                                            (fold min (map recency rs) (recency r)))),
                             rt_frequency = sum_list (map frequency (r # rs)),
                             rt_monetary = sum_list (map monetary (r # rs)),
                             rt_segment = rfm_segment r\<rparr>])
                 (sort (remdups (map rfm_customer rfm))))"

definition rfm_table :: "rfm_row list \<Rightarrow> rfm_table_row list" where
  "rfm_table rfm =
     (let rfm_curr = rfm_by_customer rfm
      in rfm_curr @
         [\<lparr>rt_customer = [], rt_name = [], rt_recency = StrCell [],
           rt_frequency = sum_list (map rt_frequency rfm_curr),
           rt_monetary = sum_list (map rt_monetary rfm_curr),
           rt_segment = []\<rparr>])"

datatype period = Previous | Current

record trace =
  trace_name :: "string option"
  trace_period :: period
  trace_points :: "(nat \<times> real) list"

text \<open>
  The bars of the customer chart: for each selected customer, in the order of the
  selection, the monthly sums of the previous and of the current period, each drawn only
  when it has a point. The bar is named after the customer's first row of the unfiltered
  current period (a name that may be NaN), or after the id when there is no such row.
\<close>

definition customer_chart ::
  "string list \<Rightarrow> transaction list \<Rightarrow> transaction list \<Rightarrow> transaction list \<Rightarrow> trace list" where
  "customer_chart custs df_curr df_prev_filtered df_curr_filtered =
     (let trend_prev = trend_by customer df_prev_filtered;
          trend_curr = trend_by customer df_curr_filtered
      in concat (map (\<lambda>cust.
           let nm = (case filter (\<lambda>t. customer t = cust) df_curr of
                       [] \<Rightarrow> Some cust
                     | t # ts \<Rightarrow> name t);
               prev_data = map (\<lambda>(m, k, a). (m, a)) (filter (\<lambda>(m, k, a). k = cust) trend_prev);
               curr_data = map (\<lambda>(m, k, a). (m, a)) (filter (\<lambda>(m, k, a). k = cust) trend_curr)
           in (if prev_data \<noteq> []
               then [\<lparr>trace_name = nm, trace_period = Previous, trace_points = prev_data\<rparr>]
               else []) @
              (if curr_data \<noteq> []
               then [\<lparr>trace_name = nm, trace_period = Current, trace_points = curr_data\<rparr>]
               else [])) custs))"

text \<open>What the tab puts on the page, in order.\<close>

datatype panel_item =
    NoDataWarning
  | CustomerSalesTable "cell sales_row list"
  | RfmErrorMessage
  | RfmTable "rfm_table_row list"
  | SelectCustomerWarning
  | CustomerChart "trace list"
  | TabErrorMessage

text \<open>
  \<^verbatim>\<open>plot_customer_analysis\<close>, with the scorer it calls as a parameter. The body runs
  inside \<^verbatim>\<open>try\<close>: when showing the customer table raises, the table is not shown,
  neither the RFM section nor the chart runs, and the \<^verbatim>\<open>except\<close> clause shows the error
  message of the tab. The RFM section runs the scorer on the filtered current period,
  and only when customers are selected and that period has rows; an error the scorer
  raised inside shows its message, its \<^verbatim>\<open>None\<close> shows no table.
\<close>

definition plot_customer_analysis_with ::
  "(transaction list \<Rightarrow> timestamp \<Rightarrow> rfm_error + rfm_row list) \<Rightarrow> timestamp
     \<Rightarrow> transaction list \<Rightarrow> transaction list \<Rightarrow> filters \<Rightarrow> panel_item list" where
  "plot_customer_analysis_with scorer now df_prev df_curr flt =
     (let df_prev_filtered = apply_filters flt df_prev;
          df_curr_filtered = apply_filters flt df_curr
      in if df_prev_filtered = [] \<and> df_curr_filtered = [] then [NoDataWarning]
         else if \<not> renders (customer_table df_prev_filtered df_curr_filtered)
         then [TabErrorMessage]
         else
           [CustomerSalesTable (customer_table df_prev_filtered df_curr_filtered)] @
           (if customers flt \<noteq> [] then
              (if df_curr_filtered \<noteq> [] then
                 (case scorer df_curr_filtered (latest_date now df_prev df_curr) of
                    Inl InvalidInput \<Rightarrow> []
                  | Inl ValueError \<Rightarrow> [RfmErrorMessage]
                  | Inr rfm \<Rightarrow> [RfmTable (rfm_table rfm)])
               else [])
            else [SelectCustomerWarning]) @
           (if customers flt \<noteq> [] then
              (let df_prev_chart = filter (\<lambda>t. customer t \<in> set (customers flt)) df_prev_filtered;
                   df_curr_chart = filter (\<lambda>t. customer t \<in> set (customers flt)) df_curr_filtered
               in if df_prev_chart \<noteq> [] \<or> df_curr_chart \<noteq> []
                  then [CustomerChart (customer_chart (customers flt) df_curr
                                         df_prev_chart df_curr_chart)]
                  else [])
            else []))"

definition plot_customer_analysis ::
  "timestamp \<Rightarrow> transaction list \<Rightarrow> transaction list \<Rightarrow> filters \<Rightarrow> panel_item list" where
  "plot_customer_analysis = plot_customer_analysis_with calculate_rfm"

section \<open>Example data\<close>

text \<open>
  A billing line of customer \<open>c\<close> with name \<open>n\<close>, on day \<open>d\<close> (counted from the epoch) of
  calendar month \<open>m\<close>, of amount \<open>a\<close>, for product \<^verbatim>\<open>M1\<close> and representative \<^verbatim>\<open>T\<close>.
\<close>

definition sale :: "string \<Rightarrow> string option \<Rightarrow> int \<Rightarrow> nat \<Rightarrow> real \<Rightarrow> transaction" where
  "sale c n d m a =
     \<lparr>billing_date = \<lparr>ts_value = d * 86400, ts_month = m\<rparr>,
      customer = c, name = n, material = ''M1'', item_description = None,
      so_luong = 1, don_gia = a, ds_da_tru_ck = a,
      program = None, product_hierarchy = None, ten_tdv = Some ''T''\<rparr>"

text \<open>A billing line of amount \<open>a\<close> of customer \<open>c\<close>, sold by representative \<open>tdv\<close>.\<close>

definition sale_of_rep :: "string \<Rightarrow> string \<Rightarrow> real \<Rightarrow> transaction" where
  "sale_of_rep tdv c a = (sale c None 1 1 a)\<lparr>ten_tdv := Some tdv\<rparr>"

text \<open>
  Raw cells that are text, with toy coercions: one date and two numbers parse, a cell
  prints as itself.
\<close>

definition text_coercions :: "string coercions" where
  "text_coercions =
     \<lparr>to_datetime = (\<lambda>s. if s = ''01/02/2024'' then Some \<lparr>ts_value = 1706745600, ts_month = 2\<rparr>
                          else None),
      astype_str = (\<lambda>s. s),
      to_numeric = (\<lambda>s. if s = ''5'' then Some 5 else if s = ''2.125'' then Some (17 / 8)
                         else None)\<rparr>"

definition text_row :: "string \<Rightarrow> string \<Rightarrow> string \<Rightarrow> string raw_row" where
  "text_row d c a =
     \<lparr>raw_billing_date = d, raw_customer = c, raw_name = Some ''Shop'',
      raw_material = ''900.0'', raw_item_description = None,
      raw_so_luong = ''5'', raw_don_gia = ''5'', raw_ds_da_tru_ck = a,
      raw_program = None, raw_product_hierarchy = None, raw_ten_tdv = Some ''T''\<rparr>"

text \<open>
  Four customers with one billing line each, on days 4, 3, 2 and 1, of amounts 10, 20, 30
  and 40; seen from day 5 their recencies are 1, 2, 3 and 4 days.
\<close>

definition spread_sales :: "transaction list" where
  "spread_sales =
     [sale ''A'' (Some ''a'') 4 1 10, sale ''B'' (Some ''b'') 3 1 20,
      sale ''C'' (Some ''c'') 2 1 30, sale ''D'' (Some ''d'') 1 1 40]"

text \<open>The rows \<^verbatim>\<open>calculate_rfm\<close> returns for \<open>spread_sales\<close> seen from day 5.\<close>

definition spread_scored :: "rfm_row list" where
  "spread_scored =
     [\<lparr>rfm_customer = ''A'', rfm_name = ''a'', recency = 1, frequency = 1, monetary = 10,
       recency_score = Some 4, frequency_score = Some 1, monetary_score = Some 1,
       rfm_segment = ''411''\<rparr>,
      \<lparr>rfm_customer = ''B'', rfm_name = ''b'', recency = 2, frequency = 1, monetary = 20,
       recency_score = Some 3, frequency_score = Some 1, monetary_score = Some 2,
       rfm_segment = ''312''\<rparr>,
      \<lparr>rfm_customer = ''C'', rfm_name = ''c'', recency = 3, frequency = 1, monetary = 30,
       recency_score = Some 2, frequency_score = Some 1, monetary_score = Some 3,
       rfm_segment = ''213''\<rparr>,
      \<lparr>rfm_customer = ''D'', rfm_name = ''d'', recency = 4, frequency = 1, monetary = 40,
       recency_score = Some 1, frequency_score = Some 1, monetary_score = Some 4,
       rfm_segment = ''114''\<rparr>]"

text \<open>
  Four customers on one day: three with one billing line, one with two. Their
  frequencies are 1, 1, 1 and 2.
\<close>

definition tied_sales :: "transaction list" where
  "tied_sales =
     [sale ''A'' (Some ''a'') 1 1 10, sale ''B'' (Some ''b'') 1 1 10,
      sale ''C'' (Some ''c'') 1 1 10, sale ''D'' (Some ''d'') 1 1 10,
      sale ''D'' (Some ''d'') 1 1 10]"

section \<open>The reference date of the RFM section\<close>

lemma series_max_mem: "series_max t ts \<in> set (t # ts)"
  unfolding series_max_def
  by (induction ts arbitrary: t) (auto simp: py_max_def)

lemma fold_py_max_ge: "ts_value t \<le> ts_value (fold (\<lambda>x m. py_max m x) ts t)"
proof (induction ts arbitrary: t)
  case Nil
  then show ?case by simp
next
  case (Cons x xs)
  have "ts_value t \<le> ts_value (py_max t x)" by (simp add: py_max_def)
  also have "\<dots> \<le> ts_value (fold (\<lambda>x m. py_max m x) xs (py_max t x))" by (rule Cons.IH)
  finally show ?case by simp
qed

lemma series_max_ge: "x \<in> set (t # ts) \<Longrightarrow> ts_value x \<le> ts_value (series_max t ts)"
  unfolding series_max_def
proof (induction ts arbitrary: t)
  case Nil
  then show ?case by simp
next
  case (Cons y ys)
  show ?case
  proof (cases "x = t")
    case True
    then show ?thesis using fold_py_max_ge[of t "y # ys"] by simp
  next
    case False
    with Cons.prems have "x \<in> set (py_max t y # ys) \<or> (x = y \<and> py_max t y = t)"
      by (auto simp: py_max_def)
    then show ?thesis
    proof
      assume "x \<in> set (py_max t y # ys)"
      from Cons.IH[OF this] show ?thesis by simp
    next
      assume h: "x = y \<and> py_max t y = t"
      then have "ts_value x \<le> ts_value t" by (auto simp: py_max_def split: if_splits)
      also have "\<dots> \<le> ts_value (fold (\<lambda>x m. py_max m x) (y # ys) t)" by (rule fold_py_max_ge)
      finally show ?thesis .
    qed
  qed
qed

text \<open>
  C4, as amended. The reference date is the latest billing date of the two unfiltered
  periods when both periods have rows: it is one of their billing dates and no billing
  date of either is later. When at least one of the two periods is empty it is the
  wall-clock time.
\<close>

theorem latest_date_reference:
  "(df_prev \<noteq> [] \<and> df_curr \<noteq> [] \<longrightarrow>
      latest_date now df_prev df_curr \<in> billing_date ` set (df_curr @ df_prev) \<and>
      (\<forall>t \<in> set (df_curr @ df_prev).
         ts_value (billing_date t) \<le> ts_value (latest_date now df_prev df_curr))) \<and>
   (df_prev = [] \<or> df_curr = [] \<longrightarrow> latest_date now df_prev df_curr = now)"
proof (cases df_curr)
  case Nil
  then show ?thesis by (simp add: latest_date_def)
next
  case c: (Cons c cs)
  show ?thesis
  proof (cases df_prev)
    case Nil
    then show ?thesis by (simp add: latest_date_def c)
  next
    case p: (Cons p ps)
    let ?mc = "series_max (billing_date c) (map billing_date cs)"
    let ?mp = "series_max (billing_date p) (map billing_date ps)"
    have eq: "latest_date now df_prev df_curr = py_max ?mc ?mp"
      by (simp add: latest_date_def c p)
    have mc: "?mc \<in> billing_date ` set df_curr"
      using series_max_mem[of "billing_date c" "map billing_date cs"] by (auto simp: c)
    have mp: "?mp \<in> billing_date ` set df_prev"
      using series_max_mem[of "billing_date p" "map billing_date ps"] by (auto simp: p)
    have mem: "py_max ?mc ?mp \<in> billing_date ` set (df_curr @ df_prev)"
      using mc mp by (auto simp: py_max_def)
    have ge: "ts_value (billing_date t) \<le> ts_value (py_max ?mc ?mp)"
      if "t \<in> set (df_curr @ df_prev)" for t
    proof -
      from that consider "t \<in> set df_curr" | "t \<in> set df_prev" by auto
      then show ?thesis
      proof cases
        case 1
        then have "billing_date t \<in> set (billing_date c # map billing_date cs)" by (auto simp: c)
        from series_max_ge[OF this] show ?thesis by (simp add: py_max_def)
      next
        case 2
        then have "billing_date t \<in> set (billing_date p # map billing_date ps)" by (auto simp: p)
        from series_max_ge[OF this] show ?thesis by (simp add: py_max_def)
      qed
    qed
    show ?thesis unfolding eq using mem ge by (simp add: c p)
  qed
qed

text \<open>
  At a wall-clock time of day 10: with billing dates on day 1 (previous period) and on
  days 3 and 2 (current period) the reference date is day 3; with an empty previous
  period it is the wall-clock time.
\<close>

theorem latest_date_reference_witness:
  "latest_date \<lparr>ts_value = 864000, ts_month = 1\<rparr>
      [sale ''A'' None 1 1 10] [sale ''A'' None 3 1 10, sale ''B'' None 2 1 10]
     = \<lparr>ts_value = 259200, ts_month = 1\<rparr> \<and>
   latest_date \<lparr>ts_value = 864000, ts_month = 1\<rparr> [] [sale ''A'' None 3 1 10]
     = \<lparr>ts_value = 864000, ts_month = 1\<rparr>"
  using latest_date_reference[of "[sale ''A'' None 1 1 10]"
          "[sale ''A'' None 3 1 10, sale ''B'' None 2 1 10]" "\<lparr>ts_value = 864000, ts_month = 1\<rparr>"]
    latest_date_reference[of "[]" "[sale ''A'' None 3 1 10]" "\<lparr>ts_value = 864000, ts_month = 1\<rparr>"]
  by (auto simp: sale_def)

text \<open>
  C4 as stated fails: the current period has a row (of day 3) and the previous period is
  empty, yet the reference date is the wall-clock time (day 10), not day 3.
\<close>

theorem latest_date_one_empty_counterexample:
  "latest_date \<lparr>ts_value = 864000, ts_month = 1\<rparr> [] [sale ''A'' None 3 1 10]
     = \<lparr>ts_value = 864000, ts_month = 1\<rparr> \<and>
   billing_date (sale ''A'' None 3 1 10) = \<lparr>ts_value = 259200, ts_month = 1\<rparr>"
  by (simp add: latest_date_def sale_def)

section \<open>The filters\<close>

text \<open>
  C2. The filter specification is what the user has selected; \<open>make_filters\<close> turns it
  into the dictionary the tabs filter with. With all four selections empty, filtering a
  dataset returns it unchanged, rows and order: the empty month selection has become all
  twelve months, so no row is lost on its month, and the three empty lists restrict
  nothing. The months of the dataset are calendar months.
\<close>

theorem empty_selection_keeps_dataset:
  assumes "\<forall>t \<in> set df. 1 \<le> ts_month (billing_date t) \<and> ts_month (billing_date t) \<le> 12"
  shows "apply_filters (make_filters \<lparr>selected_months = [], selected_customers = [],
            selected_materials = [], selected_tdvs = []\<rparr>) df = df"
proof -
  have "filter (\<lambda>t. ts_month (billing_date t) \<in> set month_options) df = df"
    using assms by (auto simp: month_options_def filter_id_conv)
  then show ?thesis by (simp add: apply_filters_def make_filters_def)
qed

text \<open>A dataset with rows in January, February and December, one of them without a name.\<close>

theorem empty_selection_keeps_dataset_witness:
  "apply_filters (make_filters \<lparr>selected_months = [], selected_customers = [],
            selected_materials = [], selected_tdvs = []\<rparr>)
     [sale ''A'' (Some ''a'') 1 1 100, sale ''B'' None 40 2 50, sale ''A'' (Some ''a'') 360 12 7]
   = [sale ''A'' (Some ''a'') 1 1 100, sale ''B'' None 40 2 50, sale ''A'' (Some ''a'') 360 12 7]"
proof -
  have calendar: "\<forall>t \<in> set [sale ''A'' (Some ''a'') 1 1 100, sale ''B'' None 40 2 50,
                            sale ''A'' (Some ''a'') 360 12 7].
                    1 \<le> ts_month (billing_date t) \<and> ts_month (billing_date t) \<le> 12"
    by (simp add: sale_def)
  from empty_selection_keeps_dataset[OF calendar] show ?thesis .
qed

text \<open>
  The month default lives in \<open>make_filters\<close> alone: a dictionary whose month list is
  empty, which \<^verbatim>\<open>main.py\<close> never builds, selects no row.
\<close>

lemma apply_filters_no_months: "apply_filters \<lparr>months = [], customers = cs, materials = ms, tdvs = ts\<rparr> df = []"
  by (simp add: apply_filters_def)

section \<open>Normalising identifiers\<close>

lemma zero_tail_no_dot:
  assumes "zero_tail cs = Some rest"
  shows "CHR ''.'' \<notin> set rest"
proof -
  define r where "r = dropWhile (\<lambda>c. c = CHR ''0'') cs"
  from assms
  have "(if takeWhile (\<lambda>c. c = CHR ''0'') cs \<noteq> [] \<and> (r = [] \<or> r = [CHR 0x0A])
         then Some r else None) = Some rest"
    unfolding zero_tail_def Let_def r_def[symmetric] .
  then have "r = rest \<and> (r = [] \<or> r = [CHR 0x0A])"
    by (simp split: if_splits)
  then show ?thesis by auto
qed

lemma replace_no_dot: "CHR ''.'' \<notin> set s \<Longrightarrow> str_replace_zero_tail s = s"
  by (induction s) auto

lemma zero_tail_zeros: "zero_tail (replicate (Suc n) CHR ''0'') = Some []"
  by (simp add: zero_tail_def)

lemma zero_tail_dot: "zero_tail (xs @ CHR ''.'' # ys) = None"
proof -
  have "dropWhile (\<lambda>c. c = CHR ''0'') (xs @ CHR ''.'' # ys) \<noteq> []"
    by (induction xs) auto
  moreover have "dropWhile (\<lambda>c. c = CHR ''0'') (xs @ CHR ''.'' # ys) \<noteq> [CHR 0x0A]"
    by (induction xs) auto
  ultimately show ?thesis by (simp add: zero_tail_def Let_def)
qed

lemma replace_strips_tail:
  "str_replace_zero_tail (s @ ''.'' @ replicate (Suc n) CHR ''0'') = s"
proof (induction s)
  case Nil
  show ?case using zero_tail_zeros[of n] by simp
next
  case (Cons c cs)
  show ?case
  proof (cases "c = CHR ''.''")
    case True
    have "zero_tail (cs @ CHR ''.'' # replicate (Suc n) CHR ''0'') = None"
      by (rule zero_tail_dot)
    with True Cons show ?thesis by simp
  next
    case False
    with Cons show ?thesis by simp
  qed
qed

lemma replace_idem_one_dot:
  "count_list s CHR ''.'' \<le> 1 \<Longrightarrow> str_replace_zero_tail (str_replace_zero_tail s) = str_replace_zero_tail s"
proof (induction s)
  case Nil
  then show ?case by simp
next
  case (Cons c cs)
  show ?case
  proof (cases "c = CHR ''.''")
    case True
    with Cons.prems have nd: "CHR ''.'' \<notin> set cs" by (simp add: count_list_0_iff)
    show ?thesis
    proof (cases "zero_tail cs")
      case None
      with True nd show ?thesis by (simp add: replace_no_dot)
    next
      case (Some rest)
      with True show ?thesis using zero_tail_no_dot[OF Some] by (simp add: replace_no_dot)
    qed
  next
    case False
    with Cons show ?thesis by simp
  qed
qed

text \<open>
  C5, as amended. Normalisation removes one trailing tail of a dot and zeros: a string
  followed by a dot and one or more zeros normalises to that string, so \<^verbatim>\<open>123.0\<close> and
  \<^verbatim>\<open>123\<close> both normalise to \<^verbatim>\<open>123\<close>. Normalising the result again (an identifier
  that is already a string prints as itself) changes nothing when the printed identifier
  has at most one dot, as every printed integer and float has.
\<close>

theorem normalize_id_strips_and_settles:
  "normalize_id id ''123.0'' = ''123'' \<and> normalize_id id ''123'' = ''123'' \<and>
   normalize_id id (s @ ''.'' @ replicate (Suc n) CHR ''0'') = s \<and>
   (count_list (astype v) CHR ''.'' \<le> 1 \<longrightarrow>
      normalize_id id (normalize_id astype v) = normalize_id astype v)"
  using replace_strips_tail[of s n] replace_idem_one_dot[of "astype v"]
  by (simp add: normalize_id_def zero_tail_def)

theorem normalize_id_strips_and_settles_witness:
  "normalize_id id ''45.000'' = ''45'' \<and>
   normalize_id id (normalize_id id ''7.50'') = normalize_id id ''7.50'' \<and>
   normalize_id id ''7.50'' = ''7.50''"
  using normalize_id_strips_and_settles[of "''45''" 2 id "''7.50''"]
  by (simp add: normalize_id_def zero_tail_def)

text \<open>
  C5 as stated fails: normalisation is not idempotent on every string. \<^verbatim>\<open>1.0.0\<close>
  normalises to \<^verbatim>\<open>1.0\<close>, which normalises to \<^verbatim>\<open>1\<close>.
\<close>

theorem normalize_id_not_idempotent_counterexample:
  "normalize_id id ''1.0.0'' = ''1.0'' \<and> normalize_id id (normalize_id id ''1.0.0'') = ''1''"
  by (simp add: normalize_id_def zero_tail_def)

section \<open>The schema check of the loader\<close>

lemma cleaned_indexed:
  "length ixs = length rs \<Longrightarrow>
   concat (map (\<lambda>(i, t, n, r). case n of None \<Rightarrow> [] | Some v \<Rightarrow> [clean_row cv t v r])
     (map (\<lambda>(i, t, r). (i, t, numeric_cols cv r, r))
        (concat (map (\<lambda>(i, d, r). case d of None \<Rightarrow> [] | Some t \<Rightarrow> [(i, t, r)])
           (map (\<lambda>(i, r). (i, to_datetime cv (raw_billing_date r), r)) (zip ixs rs))))))
   = clean_rows cv rs"
  by (induction ixs rs rule: list_induct2) (auto simp: clean_rows_def split: option.splits)

lemma required_columns_eleven: "length required_columns = 11 \<and> distinct required_columns"
  by (simp add: required_columns_def)

text \<open>
  C8. There are eleven required columns. When one of them is absent from the table read
  from the file, loading returns the schema error, which lists exactly the required
  columns that are absent, each once, and there is no dataset. When all are present,
  loading returns the cleaned rows of the table (with the warnings about dropped rows).
\<close>

theorem load_schema_check:
  "(\<not> set required_columns \<subseteq> set (columns df) \<longrightarrow>
      (\<exists>missing. load_and_validate_data cv (Inr df) label = Inl (SchemaError label missing) \<and>
         set missing = set required_columns - set (columns df) \<and> distinct missing)) \<and>
   (set required_columns \<subseteq> set (columns df) \<longrightarrow>
      (\<exists>warnings. load_and_validate_data cv (Inr df) label =
         Inr (warnings, clean_rows cv (rows df)))) \<and>
   length required_columns = 11"
proof -
  let ?missing = "filter (\<lambda>col. col \<notin> set (columns df)) required_columns"
  have set_missing: "set ?missing = set required_columns - set (columns df)" by auto
  have dist: "distinct ?missing" using required_columns_eleven by simp
  have nonempty: "?missing \<noteq> [] \<longleftrightarrow> \<not> set required_columns \<subseteq> set (columns df)"
    by (auto simp: filter_empty_conv)
  have fail: "?missing \<noteq> [] \<Longrightarrow>
      load_and_validate_data cv (Inr df) label = Inl (SchemaError label ?missing)"
    by (simp add: load_and_validate_data_def)
  have pass: "?missing = [] \<Longrightarrow> \<exists>warnings. load_and_validate_data cv (Inr df) label =
         Inr (warnings, clean_rows cv (rows df))"
    using cleaned_indexed[of "[0 ..< length (rows df)]" "rows df" cv]
    by (simp add: load_and_validate_data_def Let_def)
  show ?thesis using set_missing dist nonempty fail pass required_columns_eleven by blast
qed

text \<open>
  A table without the columns \<^verbatim>\<open>Customer\<close> and \<^verbatim>\<open>Ten TDV\<close> is refused with these two
  names. A table with all columns and three rows, the second with an unparseable date
  and the third with a non-numeric amount, loads to its first row, cleaned, with a
  warning for each dropped row.
\<close>

theorem load_schema_check_witness:
  "load_and_validate_data text_coercions
     (Inr \<lparr>columns = [''Billing Date'', ''Name'', ''Material'', ''Item Description'',
                       ''So Luong'', ''Don Gia'', ''DS Da Tru CK'', ''Program'',
                       ''Product Hierarchy'', ''Extra''],
           rows = [text_row ''01/02/2024'' ''77.0'' ''5'']\<rparr>) ''Nam Truoc''
     = Inl (SchemaError ''Nam Truoc'' [''Customer'', ''Ten TDV'']) \<and>
   load_and_validate_data text_coercions
     (Inr \<lparr>columns = ''Extra'' # required_columns,
           rows = [text_row ''01/02/2024'' ''77.0'' ''2.125'', text_row ''soon'' ''78'' ''5'',
                   text_row ''01/02/2024'' ''79'' ''n/a'']\<rparr>) ''Nam Nay''
     = Inr ([InvalidDates [1], InvalidNumbers [2]],
            [\<lparr>billing_date = \<lparr>ts_value = 1706745600, ts_month = 2\<rparr>,
              customer = ''77'', name = Some ''Shop'', material = ''900'',
              item_description = None, so_luong = 5, don_gia = 5, ds_da_tru_ck = 53 / 25,
              program = None, product_hierarchy = None, ten_tdv = Some ''T''\<rparr>])"
  using load_schema_check[of
          "\<lparr>columns = [''Billing Date'', ''Name'', ''Material'', ''Item Description'',
                       ''So Luong'', ''Don Gia'', ''DS Da Tru CK'', ''Program'',
                       ''Product Hierarchy'', ''Extra''],
            rows = [text_row ''01/02/2024'' ''77.0'' ''5'']\<rparr>" text_coercions "''Nam Truoc''"]
    load_schema_check[of
          "\<lparr>columns = ''Extra'' # required_columns,
            rows = [text_row ''01/02/2024'' ''77.0'' ''2.125'', text_row ''soon'' ''78'' ''5'',
                    text_row ''01/02/2024'' ''79'' ''n/a'']\<rparr>" text_coercions "''Nam Nay''"]
  by (simp add: load_and_validate_data_def required_columns_def text_coercions_def
        text_row_def numeric_cols_def clean_row_def normalize_id_def zero_tail_def
        round2_def round_half_even_def upt_rec)

section \<open>The sales tables\<close>

lemma map_of_keyed:
  "map_of (map (\<lambda>k. (k, f k)) ks) k = (if k \<in> set ks then Some (f k) else None)"
  by (induction ks) auto

lemma groupby_keys: "map fst (groupby_sum_first key label df) = sort (remdups (map key df))"
  by (simp add: groupby_sum_first_def Let_def comp_def)

lemma groupby_lookup:
  "map_of (groupby_sum_first key label df) k =
     (if k \<in> key ` set df
      then Some (sum_list (map ds_da_tru_ck (filter (\<lambda>t. key t = k) df)),
                 first_valid (map label (filter (\<lambda>t. key t = k) df)))
      else None)"
  unfolding groupby_sum_first_def Let_def
  by (simp add: map_of_keyed)

lemma filter_absent_key: "k \<notin> key ` set df \<Longrightarrow> filter (\<lambda>t. key t = k) df = []"
  by (auto simp: filter_empty_conv)

lemma merged_entities:
  "map entity (merged_rows key label df_prev df_curr) =
     sort (remdups (map key df_prev @ map key df_curr))"
proof -
  have "map entity (merged_rows key label df_prev df_curr) =
        sort (remdups (sort (remdups (map key df_prev)) @ sort (remdups (map key df_curr))))"
    by (simp add: merged_rows_def merge_outer_def Let_def comp_def groupby_keys case_prod_unfold)
  also have "\<dots> = sort (remdups (map key df_prev @ map key df_curr))"
    by (intro sorted_distinct_set_unique) auto
  finally show ?thesis .
qed

lemma merged_row_amounts:
  assumes "r \<in> set (merged_rows key label df_prev df_curr)"
  shows "amount_prev r = group_total key (entity r) df_prev \<and>
         amount_curr r = group_total key (entity r) df_curr \<and>
         growth r = row_growth (amount_prev r) (amount_curr r)"
proof -
  have gp: "(case map_of (if df_prev \<noteq> [] then groupby_sum_first key label df_prev else []) k of
               None \<Rightarrow> 0 | Some (a, l) \<Rightarrow> a) = group_total key k df_prev" for k
    by (cases "df_prev = []") (auto simp: groupby_lookup group_total_def filter_absent_key)
  have gc: "(case map_of (if df_curr \<noteq> [] then groupby_sum_first key label df_curr else []) k of
               None \<Rightarrow> 0 | Some (a, l) \<Rightarrow> a) = group_total key k df_curr" for k
    by (cases "df_curr = []") (auto simp: groupby_lookup group_total_def filter_absent_key)
  from assms show ?thesis
    unfolding merged_rows_def merge_outer_def Let_def
    by (auto simp: gp gc)
qed

lemma sales_table_outer_join:
  "distinct (map entity (butlast (sales_table key label df_prev df_curr))) \<and>
   set (map entity (butlast (sales_table key label df_prev df_curr)))
     = key ` set df_prev \<union> key ` set df_curr \<and>
   (\<forall>r \<in> set (butlast (sales_table key label df_prev df_curr)).
      amount_prev r = group_total key (entity r) df_prev \<and>
      amount_curr r = group_total key (entity r) df_curr \<and>
      (entity r \<notin> key ` set df_prev \<longrightarrow> amount_prev r = 0) \<and>
      (entity r \<notin> key ` set df_curr \<longrightarrow> amount_curr r = 0))"
proof -
  let ?m = "merged_rows key label df_prev df_curr"
  have bl: "butlast (sales_table key label df_prev df_curr) = map fillna_row ?m"
    by (simp add: sales_table_def Let_def butlast_append)
  have ent: "map entity (map fillna_row ?m) = sort (remdups (map key df_prev @ map key df_curr))"
    using merged_entities[of key label df_prev df_curr] by (simp add: comp_def fillna_row_def)
  have absent: "k \<notin> key ` set df \<Longrightarrow> group_total key k df = 0" for k df
    by (simp add: group_total_def filter_absent_key)
  have rows: "amount_prev r = group_total key (entity r) df_prev \<and>
      amount_curr r = group_total key (entity r) df_curr"
    if "r \<in> set (map fillna_row ?m)" for r
    using that merged_row_amounts[of _ key label df_prev df_curr]
    by (auto simp: fillna_row_def)
  show ?thesis
    unfolding bl ent using rows absent by auto
qed

lemma sales_table_totals:
  "sales_table key label df_prev df_curr \<noteq> [] \<and>
   entity (last (sales_table key label df_prev df_curr)) = [] \<and>
   amount_prev (last (sales_table key label df_prev df_curr))
     = sum_list (map amount_prev (butlast (sales_table key label df_prev df_curr))) \<and>
   amount_curr (last (sales_table key label df_prev df_curr))
     = sum_list (map amount_curr (butlast (sales_table key label df_prev df_curr))) \<and>
   growth (last (sales_table key label df_prev df_curr))
     = NumCell (Finite
         (if amount_prev (last (sales_table key label df_prev df_curr)) = 0 then 0
          else (amount_curr (last (sales_table key label df_prev df_curr))
                  - amount_prev (last (sales_table key label df_prev df_curr)))
               / amount_prev (last (sales_table key label df_prev df_curr)) * 100))"
proof -
  let ?m = "merged_rows key label df_prev df_curr"
  have tbl: "sales_table key label df_prev df_curr = map fillna_row ?m @ [fillna_row (total_row ?m)]"
    by (simp add: sales_table_def Let_def)
  have keep_p: "amount_prev \<circ> fillna_row = amount_prev"
    by (simp add: fun_eq_iff fillna_row_def)
  have keep_c: "amount_curr \<circ> fillna_row = amount_curr"
    by (simp add: fun_eq_iff fillna_row_def)
  show ?thesis
    unfolding tbl
    by (simp add: keep_p keep_c butlast_append fillna_row_def total_row_def growth_pct_def
          fillna_str_def)
qed

lemma tdv_sums_example:
  "tdv_sums [sale_of_rep ''T1'' ''A'' 100, sale_of_rep ''T2'' ''B'' 50]
     = [(''T1'', 100), (''T2'', 50)]"
  "tdv_sums [sale_of_rep ''T1'' ''A'' 100] = [(''T1'', 100)]"
  "tdv_sums [sale_of_rep ''T2'' ''B'' 50] = [(''T2'', 50)]"
  by (simp_all add: tdv_sums_def sale_of_rep_def sale_def List.map_filter_def)

text \<open>
  C7, as amended. In the customer table and in the product table, without the totals
  row: every customer (product) of either filtered period has exactly one row, no other
  entity has a row, each amount is the entity's sum in that period, and it is 0 for a
  period in which the entity has no row. The source joins the two periods on no other
  key.
\<close>

theorem outer_join_complete:
  "(distinct (map entity (butlast (customer_table df_prev df_curr))) \<and>
    set (map entity (butlast (customer_table df_prev df_curr)))
      = customer ` set df_prev \<union> customer ` set df_curr \<and>
    (\<forall>r \<in> set (butlast (customer_table df_prev df_curr)).
       amount_prev r = group_total customer (entity r) df_prev \<and>
       amount_curr r = group_total customer (entity r) df_curr \<and>
       (entity r \<notin> customer ` set df_prev \<longrightarrow> amount_prev r = 0) \<and>
       (entity r \<notin> customer ` set df_curr \<longrightarrow> amount_curr r = 0))) \<and>
   (distinct (map entity (butlast (product_table df_prev df_curr))) \<and>
    set (map entity (butlast (product_table df_prev df_curr)))
      = material ` set df_prev \<union> material ` set df_curr \<and>
    (\<forall>r \<in> set (butlast (product_table df_prev df_curr)).
       amount_prev r = group_total material (entity r) df_prev \<and>
       amount_curr r = group_total material (entity r) df_curr \<and>
       (entity r \<notin> material ` set df_prev \<longrightarrow> amount_prev r = 0) \<and>
       (entity r \<notin> material ` set df_curr \<longrightarrow> amount_curr r = 0)))"
  unfolding customer_table_def product_table_def
  by (rule conjI[OF sales_table_outer_join[of customer name df_prev df_curr]
                    sales_table_outer_join[of material item_description df_prev df_curr]])

text \<open>
  Customer \<^verbatim>\<open>A\<close> with two lines in the previous period only, \<^verbatim>\<open>B\<close> in both periods,
  \<^verbatim>\<open>C\<close> in the current period only: three rows, with 0 on the missing sides. All lines
  are of product \<^verbatim>\<open>M1\<close>: one row in the product table.
\<close>

theorem outer_join_complete_witness:
  "map (\<lambda>r. (entity r, amount_prev r, amount_curr r))
     (butlast (customer_table
        [sale ''B'' None 1 1 5, sale ''A'' None 1 1 100, sale ''A'' None 2 1 50]
        [sale ''C'' None 3 1 7, sale ''B'' None 3 1 6]))
   = [(''A'', 150, 0), (''B'', 5, 6), (''C'', 0, 7)] \<and>
   map (\<lambda>r. (entity r, amount_prev r, amount_curr r))
     (butlast (product_table
        [sale ''B'' None 1 1 5, sale ''A'' None 1 1 100, sale ''A'' None 2 1 50]
        [sale ''C'' None 3 1 7, sale ''B'' None 3 1 6]))
   = [(''M1'', 155, 13)]"
  using outer_join_complete[of
          "[sale ''B'' None 1 1 5, sale ''A'' None 1 1 100, sale ''A'' None 2 1 50]"
          "[sale ''C'' None 3 1 7, sale ''B'' None 3 1 6]"]
  by (simp add: customer_table_def product_table_def sales_table_def merged_rows_def
        merge_outer_def groupby_sum_first_def sale_def fillna_row_def Let_def)

text \<open>
  C7 as stated fails for the sales-representative key. Representative \<^verbatim>\<open>T1\<close> sells in
  the previous period only and \<^verbatim>\<open>T2\<close> in the current period only. The two frames keyed
  by representative stay apart: \<^verbatim>\<open>T1\<close> has no row and no amount on the current side,
  and \<^verbatim>\<open>T2\<close> none on the previous side, where the claim has a row with amount 0.
\<close>

theorem no_outer_join_by_tdv_counterexample:
  "tdv_sums [sale_of_rep ''T1'' ''A'' 100] = [(''T1'', 100)] \<and>
   tdv_sums [sale_of_rep ''T2'' ''B'' 50] = [(''T2'', 50)] \<and>
   map_of (tdv_sums [sale_of_rep ''T2'' ''B'' 50]) ''T1'' = None \<and>
   map_of (tdv_sums [sale_of_rep ''T1'' ''A'' 100]) ''T2'' = None"
  by (simp add: tdv_sums_example)

text \<open>
  C9, as amended. The last row of the customer table and of the product table is the
  totals row: its entity is blank, its two amounts are the sums of the amount columns
  over the other rows, and its growth is computed from these two sums, 0 when the
  previous sum is 0. The source appends a totals row to no other sales table.
\<close>

theorem totals_row_consistent:
  "(customer_table df_prev df_curr \<noteq> [] \<and>
    entity (last (customer_table df_prev df_curr)) = [] \<and>
    amount_prev (last (customer_table df_prev df_curr))
      = sum_list (map amount_prev (butlast (customer_table df_prev df_curr))) \<and>
    amount_curr (last (customer_table df_prev df_curr))
      = sum_list (map amount_curr (butlast (customer_table df_prev df_curr))) \<and>
    growth (last (customer_table df_prev df_curr))
      = NumCell (Finite
          (if amount_prev (last (customer_table df_prev df_curr)) = 0 then 0
           else (amount_curr (last (customer_table df_prev df_curr))
                   - amount_prev (last (customer_table df_prev df_curr)))
                / amount_prev (last (customer_table df_prev df_curr)) * 100))) \<and>
   (product_table df_prev df_curr \<noteq> [] \<and>
    entity (last (product_table df_prev df_curr)) = [] \<and>
    amount_prev (last (product_table df_prev df_curr))
      = sum_list (map amount_prev (butlast (product_table df_prev df_curr))) \<and>
    amount_curr (last (product_table df_prev df_curr))
      = sum_list (map amount_curr (butlast (product_table df_prev df_curr))) \<and>
    growth (last (product_table df_prev df_curr))
      = NumCell (Finite
          (if amount_prev (last (product_table df_prev df_curr)) = 0 then 0
           else (amount_curr (last (product_table df_prev df_curr))
                   - amount_prev (last (product_table df_prev df_curr)))
                / amount_prev (last (product_table df_prev df_curr)) * 100)))"
  unfolding customer_table_def product_table_def
  by (rule conjI[OF sales_table_totals[of customer name df_prev df_curr]
                    sales_table_totals[of material item_description df_prev df_curr]])

text \<open>
  Customers \<^verbatim>\<open>A\<close> and \<^verbatim>\<open>B\<close> in the previous period, \<^verbatim>\<open>B\<close> and \<^verbatim>\<open>C\<close> in the current
  one, all of product \<^verbatim>\<open>M1\<close>: both tables end with the totals 105 and 210 and the
  growth 100.
\<close>

theorem totals_row_consistent_witness:
  "map (\<lambda>r. (entity r, amount_prev r, amount_curr r, growth r))
     (customer_table
        [sale ''B'' None 1 1 5, sale ''A'' None 1 1 100]
        [sale ''C'' None 3 1 7, sale ''B'' None 3 1 203])
   = [(''A'', 100, 0, NumCell (Finite (- 100))), (''B'', 5, 203, NumCell (Finite 3960)),
      (''C'', 0, 7, NumCell (Finite 0)), ([], 105, 210, NumCell (Finite 100))] \<and>
   map (\<lambda>r. (entity r, amount_prev r, amount_curr r, growth r))
     (product_table
        [sale ''B'' None 1 1 5, sale ''A'' None 1 1 100]
        [sale ''C'' None 3 1 7, sale ''B'' None 3 1 203])
   = [(''M1'', 105, 210, NumCell (Finite 100)), ([], 105, 210, NumCell (Finite 100))]"
  using totals_row_consistent[of
          "[sale ''B'' None 1 1 5, sale ''A'' None 1 1 100]"
          "[sale ''C'' None 3 1 7, sale ''B'' None 3 1 203]"]
  by (simp add: customer_table_def product_table_def sales_table_def merged_rows_def
        merge_outer_def groupby_sum_first_def sale_def fillna_row_def total_row_def
        growth_pct_def row_growth_def float_div_def float_scale_def replace_inf_def
        fillna_str_def Let_def)

text \<open>
  C9 as stated fails for the sales-representative key. The frame keyed by
  representative of a period in which \<^verbatim>\<open>T1\<close> sells 100 and \<^verbatim>\<open>T2\<close> sells 50 has these
  two rows and nothing else: its amounts sum to 150, and no row holds that sum.
\<close>

theorem no_totals_row_by_tdv_counterexample:
  "tdv_sums [sale_of_rep ''T1'' ''A'' 100, sale_of_rep ''T2'' ''B'' 50]
     = [(''T1'', 100), (''T2'', 50)] \<and>
   sum_list (map snd (tdv_sums [sale_of_rep ''T1'' ''A'' 100, sale_of_rep ''T2'' ''B'' 50]))
     = 150 \<and>
   snd (last (tdv_sums [sale_of_rep ''T1'' ''A'' 100, sale_of_rep ''T2'' ''B'' 50])) = 50"
  by (simp add: tdv_sums_example)

section \<open>Growth from a previous amount of zero\<close>

lemma row_growth_zero_prev: "cur \<noteq> 0 \<Longrightarrow> row_growth 0 cur = Finite 0"
  by (simp add: row_growth_def float_div_def float_scale_def replace_inf_def)

lemma row_growth_zero_both: "row_growth 0 0 = NaN"
  by (simp add: row_growth_def float_div_def float_scale_def replace_inf_def)

lemma growth_pct_zero_prev: "growth_pct 0 cur = 0"
  by (simp add: growth_pct_def)

text \<open>
  C1: a row whose previous amount is 0 should have growth 0 whatever its current amount
  is, as the totals row and the headline metric have. The code does so when the current
  amount is not 0 (\<open>row_growth_zero_prev\<close>) and for the totals row and the headline
  (\<open>growth_pct_zero_prev\<close>), but not when the current amount is 0 as well. Here customer
  \<^verbatim>\<open>A\<close> has a sale of 100 and a return of 100 in the previous period and nothing in the
  current one, and customer \<^verbatim>\<open>B\<close> has 50 in the current period only. Both rows have a
  previous amount of 0. The growth of \<^verbatim>\<open>B\<close> is 0, and so is the growth of the totals
  row; the growth of \<^verbatim>\<open>A\<close> is NaN in the merged frame and the empty string in the
  displayed table.
\<close>

theorem zero_prev_zero_curr_growth_blank:
  "map (\<lambda>r. (entity r, amount_prev r, amount_curr r, growth r))
     (merged_rows customer name
        [sale ''A'' (Some ''a'') 1 1 100, sale ''A'' (Some ''a'') 2 1 (- 100)]
        [sale ''B'' (Some ''b'') 3 1 50])
     = [(''A'', 0, 0, NaN), (''B'', 0, 50, Finite 0)] \<and>
   map (\<lambda>r. (entity r, amount_prev r, amount_curr r, growth r))
     (customer_table
        [sale ''A'' (Some ''a'') 1 1 100, sale ''A'' (Some ''a'') 2 1 (- 100)]
        [sale ''B'' (Some ''b'') 3 1 50])
     = [(''A'', 0, 0, StrCell []), (''B'', 0, 50, NumCell (Finite 0)),
        ([], 0, 50, NumCell (Finite 0))]"
  by (simp add: customer_table_def sales_table_def merged_rows_def merge_outer_def
        groupby_sum_first_def sale_def total_row_def fillna_row_def fillna_str_def
        row_growth_def float_div_def float_scale_def replace_inf_def growth_pct_def
        fillna_zero_def Let_def)

section \<open>Quartile scoring\<close>

lemma linspace_4: "map (\<lambda>i. real i / real 4) [0 ..< Suc 4] = [0, 1 / 4, 1 / 2, 3 / 4, 1]"
proof -
  have e: "[0 ..< Suc 4] = [0, 1, 2, 3, 4]"
    by code_simp
  show ?thesis unfolding e by simp
qed

lemma length_quartile_edges: "length (quartile_edges x) = 5"
  by (simp add: quartile_edges_def)

lemma qcut_4_edges:
  "qcut x 4 labels =
     (let bins = quartile_edges x;
          edges = (if length (remdups bins) < 5 then remdups bins else bins)
      in if length labels \<noteq> length edges - 1 then Inl ValueError
         else Inr (map (\<lambda>v. let ids = (if v = edges ! 0 then 1 else searchsorted edges v)
                             in if ids = length edges \<or> ids = 0 then None
                                else Some (labels ! (ids - 1))) x))"
  unfolding qcut_def linspace_4 quartile_edges_def[symmetric] Let_def length_quartile_edges
  by simp

lemma tied_edges_raise:
  assumes "length labels = 4" and "\<not> distinct (quartile_edges x)"
  shows "qcut x 4 labels = Inl ValueError"
proof -
  have "remdups (quartile_edges x) \<noteq> quartile_edges x"
    using assms(2) by (metis distinct_remdups)
  then have "length (remdups (quartile_edges x)) \<noteq> length (quartile_edges x)"
    by (simp add: length_remdups_eq)
  moreover have "length (remdups (quartile_edges x)) \<le> length (quartile_edges x)"
    by (rule length_remdups_leq)
  ultimately have lt: "length (remdups (quartile_edges x)) < 5"
    using length_quartile_edges[of x] by linarith
  show ?thesis unfolding qcut_4_edges Let_def using lt assms(1) by simp
qed

lemma tied_sales_groups:
  "rfm_groups tied_sales \<lparr>ts_value = 86400, ts_month = 1\<rparr> =
   [\<lparr>m_customer = ''A'', m_name = ''a'', m_recency = 0, m_frequency = 1, m_monetary = 10\<rparr>,
    \<lparr>m_customer = ''B'', m_name = ''b'', m_recency = 0, m_frequency = 1, m_monetary = 10\<rparr>,
    \<lparr>m_customer = ''C'', m_name = ''c'', m_recency = 0, m_frequency = 1, m_monetary = 10\<rparr>,
    \<lparr>m_customer = ''D'', m_name = ''d'', m_recency = 0, m_frequency = 2, m_monetary = 20\<rparr>]"
  by (simp add: tied_sales_def rfm_groups_def rfm_key_def sale_def List.map_filter_def
        series_max_def py_max_def days_between_def)

lemma tied_sales_edges: "quartile_edges [1, 1, 1, 2] = [1, 1, 1, 5 / 4, 2]"
  by (simp add: quartile_edges_def quantile_def)

text \<open>
  C3: when tied values merge quartile buckets, scoring should still succeed with scores
  from 1 to 4. In the code it fails whenever an edge is merged (\<open>tied_edges_raise\<close>).
  Here the filtered current period \<open>tied_sales\<close> is not empty, its frequency column
  1, 1, 1, 2 has two distinct values and the quartile edges 1, 1, 1, 1.25, 2, of which
  three are distinct: two buckets are left for four labels, \<^verbatim>\<open>qcut\<close> raises, and
  \<^verbatim>\<open>calculate_rfm\<close> ends in its \<^verbatim>\<open>except\<close> clause without any score.
\<close>

theorem tied_frequency_no_scores:
  "tied_sales \<noteq> [] \<and>
   map m_frequency (rfm_groups tied_sales \<lparr>ts_value = 86400, ts_month = 1\<rparr>) = [1, 1, 1, 2] \<and>
   quartile_edges [1, 1, 1, 2] = [1, 1, 1, 5 / 4, 2] \<and>
   calculate_rfm tied_sales \<lparr>ts_value = 86400, ts_month = 1\<rparr> = Inl ValueError"
proof -
  let ?G = "rfm_groups tied_sales \<lparr>ts_value = 86400, ts_month = 1\<rparr>"
  have ne: "tied_sales \<noteq> []" by (simp add: tied_sales_def)
  have freq: "map m_frequency ?G = [1, 1, 1, 2]"
    unfolding tied_sales_groups by simp
  have rec: "map (\<lambda>g. real_of_int (m_recency g)) ?G = [0, 0, 0, 0]"
    unfolding tied_sales_groups by simp
  have rscore: "score_column True [0, 0, 0, 0] = Inr [Some 1, Some 1, Some 1, Some 1]"
    by (simp add: score_column_def)
  have "qcut [1, 1, 1, 2] 4 [1, 2, 3, 4] = Inl ValueError"
    by (rule tied_edges_raise) (simp_all add: tied_sales_edges)
  then have fscore: "score_column False [1, 1, 1, 2] = Inl ValueError"
    by (simp add: score_column_def)
  have freq_real: "map (\<lambda>g. real (m_frequency g)) ?G = [1, 1, 1, 2]"
    unfolding tied_sales_groups by simp
  have "calculate_rfm tied_sales \<lparr>ts_value = 86400, ts_month = 1\<rparr> = Inl ValueError"
    unfolding calculate_rfm_def Let_def rec freq_real rscore fscore
    using ne by simp
  with ne freq tied_sales_edges show ?thesis by blast
qed

section \<open>The direction of the recency score\<close>

lemma quantile_lowest: "quantile s 0 = s ! 0"
  by (cases "Suc 0 < length s") (auto simp: quantile_def Let_def not_less le_Suc_eq)

lemma quantile_highest: "quantile s 1 = s ! (length s - 1)"
  by (simp add: quantile_def Let_def)

lemma first_edge: "quartile_edges x ! 0 = sort x ! 0"
  by (simp add: quartile_edges_def quantile_lowest)

lemma last_edge: "quartile_edges x ! 4 = sort x ! (length x - 1)"
  by (simp add: quartile_edges_def quantile_highest)

lemma sorted_bounds:
  assumes "v \<in> set x"
  shows "sort x ! 0 \<le> v \<and> v \<le> sort x ! (length x - 1)"
proof -
  from assms have "v \<in> set (sort x)" by simp
  then obtain i where i: "i < length (sort x)" "sort x ! i = v"
    unfolding in_set_conv_nth by blast
  have s: "sorted (sort x)" by simp
  have "sort x ! 0 \<le> sort x ! i"
    using s i(1) by (intro sorted_nth_mono) auto
  moreover have "sort x ! i \<le> sort x ! (length x - 1)"
    using s i(1) by (intro sorted_nth_mono) auto
  ultimately show ?thesis using i(2) by simp
qed

lemma searchsorted_mono: "v \<le> w \<Longrightarrow> searchsorted bins v \<le> searchsorted bins w"
  unfolding searchsorted_def
  by (induction bins) auto

lemma searchsorted_pos: "bins \<noteq> [] \<Longrightarrow> bins ! 0 < v \<Longrightarrow> 0 < searchsorted bins v"
  unfolding searchsorted_def by (cases bins) auto

lemma searchsorted_below_length:
  "i < length bins \<Longrightarrow> v \<le> bins ! i \<Longrightarrow> searchsorted bins v < length bins"
  unfolding searchsorted_def
  by (intro length_filter_less[of "bins ! i"]) auto

lemma bin_of_range:
  assumes "v \<in> set x"
  shows "1 \<le> bin_of x v \<and> bin_of x v \<le> 4"
proof (cases "v = quartile_edges x ! 0")
  case True
  then show ?thesis by (simp add: bin_of_def)
next
  case False
  from sorted_bounds[OF assms] have lo: "quartile_edges x ! 0 \<le> v"
    and hi: "v \<le> quartile_edges x ! 4"
    by (simp_all add: first_edge last_edge)
  from lo False have "quartile_edges x ! 0 < v" by simp
  moreover have "quartile_edges x \<noteq> []" using length_quartile_edges[of x] by auto
  ultimately have "0 < searchsorted (quartile_edges x) v" by (rule searchsorted_pos[rotated])
  moreover have "searchsorted (quartile_edges x) v < length (quartile_edges x)"
    using hi by (intro searchsorted_below_length[of 4]) (simp_all add: length_quartile_edges)
  ultimately show ?thesis using False by (simp add: bin_of_def length_quartile_edges)
qed

lemma bin_of_mono:
  assumes "v \<in> set x" "w \<in> set x" "v < w"
  shows "bin_of x v \<le> bin_of x w"
proof (cases "v = quartile_edges x ! 0")
  case True
  then show ?thesis using bin_of_range[OF assms(2)] by (simp add: bin_of_def)
next
  case False
  from sorted_bounds[OF assms(1)] False have "quartile_edges x ! 0 < v"
    by (simp add: first_edge)
  with assms(3) have "w \<noteq> quartile_edges x ! 0" by simp
  with False show ?thesis using searchsorted_mono[of v w] assms(3) by (simp add: bin_of_def)
qed

lemma qcut_scores:
  assumes "qcut x 4 labels = Inr sc" and "length labels = 4"
  shows "sc = map (\<lambda>v. if bin_of x v = 5 \<or> bin_of x v = 0 then None
                         else Some (labels ! (bin_of x v - 1))) x"
proof (cases "length (remdups (quartile_edges x)) < 5")
  case True
  with assms(2) have "qcut x 4 labels = Inl ValueError"
    unfolding qcut_4_edges Let_def by simp
  with assms(1) show ?thesis by simp
next
  case False
  with assms show ?thesis
    unfolding qcut_4_edges Let_def bin_of_def
    by (simp add: length_quartile_edges split: if_splits)
qed

lemma recency_label: "1 \<le> i \<Longrightarrow> i \<le> 4 \<Longrightarrow> [4, 3, 2, 1] ! (i - 1) = 5 - (i::nat)"
proof -
  assume "1 \<le> i" "i \<le> 4"
  then consider "i = 1" | "i = 2" | "i = 3" | "i = 4" by linarith
  then show ?thesis by cases simp_all
qed

lemma score_column_recency:
  assumes "score_column True col = Inr sc"
  shows "\<exists>f. sc = map f col \<and>
           (\<forall>v \<in> set col. \<exists>a. f v = Some a \<and> 1 \<le> a \<and> a \<le> 4) \<and>
           (\<forall>v \<in> set col. \<forall>w \<in> set col. v < w \<longrightarrow> the (f w) \<le> the (f v))"
proof (cases "length (remdups col) \<le> 1")
  case True
  with assms have "sc = map (\<lambda>v. Some 1) col" by (simp add: score_column_def)
  then show ?thesis by (intro exI[of _ "\<lambda>v. Some 1"]) simp
next
  case False
  let ?f = "\<lambda>v. if bin_of col v = 5 \<or> bin_of col v = 0 then None
                  else Some ([4, 3, 2, 1::nat] ! (bin_of col v - 1))"
  from False assms have q: "qcut col 4 [4, 3, 2, 1] = Inr sc" by (simp add: score_column_def)
  have sc: "sc = map ?f col" by (rule qcut_scores[OF q]) simp
  have val: "?f v = Some (5 - bin_of col v)" if "v \<in> set col" for v
    using bin_of_range[OF that] recency_label[of "bin_of col v"] by simp
  have rng: "\<exists>a. ?f v = Some a \<and> 1 \<le> a \<and> a \<le> 4" if "v \<in> set col" for v
  proof -
    from bin_of_range[OF that] have "1 \<le> 5 - bin_of col v \<and> 5 - bin_of col v \<le> 4"
      by arith
    with val[OF that] show ?thesis by simp
  qed
  have anti: "the (?f w) \<le> the (?f v)" if "v \<in> set col" "w \<in> set col" "v < w" for v w
  proof -
    from bin_of_mono[OF that] have "5 - bin_of col w \<le> 5 - bin_of col v" by arith
    with val[OF that(1)] val[OF that(2)] show ?thesis by simp
  qed
  show ?thesis
    by (intro exI[of _ ?f]) (use sc rng anti in blast)
qed

lemma zip_map_self: "(g, r) \<in> set (zip G (map h G)) \<Longrightarrow> r = h g \<and> g \<in> set G"
  by (auto simp: zip_map2 zip_same_conv_map)

lemma zip_nested_fst: "(g, r, z) \<in> set (zip G (zip rs Z)) \<Longrightarrow> (g, r) \<in> set (zip G rs)"
  by (auto simp: set_zip)

text \<open>
  C6. Whenever \<^verbatim>\<open>calculate_rfm\<close> returns scored rows, any two of them with distinct
  recency have recency scores, both between 1 and 4, and the row with the smaller
  recency (the more recent purchaser) has a score at least as high as the other's.
\<close>

theorem recency_score_direction:
  assumes "calculate_rfm df latest = Inr rfm"
    and "a \<in> set rfm" and "b \<in> set rfm" and "recency a < recency b"
  shows "\<exists>sa sb. recency_score a = Some sa \<and> recency_score b = Some sb \<and>
           sb \<le> sa \<and> 1 \<le> sb \<and> sa \<le> 4"
proof -
  let ?G = "rfm_groups df latest"
  let ?col = "map (\<lambda>g. real_of_int (m_recency g)) ?G"
  from assms(1) obtain rs fs ms
    where rs: "score_column True ?col = Inr rs"
      and rfm: "rfm = map with_scores (zip ?G (zip rs (zip fs ms)))"
    by (auto simp: calculate_rfm_def Let_def split: if_splits sum.splits)
  from score_column_recency[OF rs] obtain f
    where sc: "rs = map f ?col"
      and rng: "\<And>v. v \<in> set ?col \<Longrightarrow> \<exists>s. f v = Some s \<and> 1 \<le> s \<and> s \<le> 4"
      and anti: "\<And>v w. v \<in> set ?col \<Longrightarrow> w \<in> set ?col \<Longrightarrow> v < w \<Longrightarrow> the (f w) \<le> the (f v)"
    by blast
  have row: "real_of_int (recency x) \<in> set ?col \<and>
             recency_score x = f (real_of_int (recency x))" if "x \<in> set rfm" for x
  proof -
    from that rfm obtain g r fr m
      where x: "x = with_scores (g, r, fr, m)"
        and mem: "(g, r, fr, m) \<in> set (zip ?G (zip rs (zip fs ms)))"
      by auto
    from zip_nested_fst[OF mem] have "(g, r) \<in> set (zip ?G (map (\<lambda>g. f (real_of_int (m_recency g))) ?G))"
      by (simp add: sc comp_def)
    from zip_map_self[OF this] have "r = f (real_of_int (m_recency g))" and "g \<in> set ?G"
      by simp_all
    then show ?thesis by (simp add: x with_scores_def)
  qed
  from row[OF assms(2)] row[OF assms(3)]
  have ca: "real_of_int (recency a) \<in> set ?col" and sa: "recency_score a = f (real_of_int (recency a))"
    and cb: "real_of_int (recency b) \<in> set ?col" and sb: "recency_score b = f (real_of_int (recency b))"
    by simp_all
  from rng[OF ca] obtain s1 where s1: "f (real_of_int (recency a)) = Some s1" "1 \<le> s1" "s1 \<le> 4"
    by blast
  from rng[OF cb] obtain s2 where s2: "f (real_of_int (recency b)) = Some s2" "1 \<le> s2" "s2 \<le> 4"
    by blast
  from assms(4) have "real_of_int (recency a) < real_of_int (recency b)" by simp
  from anti[OF ca cb this] s1(1) s2(1) have "s2 \<le> s1" by simp
  with s1 s2 sa sb show ?thesis by simp
qed

lemma spread_groups:
  "rfm_groups spread_sales \<lparr>ts_value = 432000, ts_month = 1\<rparr> =
   [\<lparr>m_customer = ''A'', m_name = ''a'', m_recency = 1, m_frequency = 1, m_monetary = 10\<rparr>,
    \<lparr>m_customer = ''B'', m_name = ''b'', m_recency = 2, m_frequency = 1, m_monetary = 20\<rparr>,
    \<lparr>m_customer = ''C'', m_name = ''c'', m_recency = 3, m_frequency = 1, m_monetary = 30\<rparr>,
    \<lparr>m_customer = ''D'', m_name = ''d'', m_recency = 4, m_frequency = 1, m_monetary = 40\<rparr>]"
  by (simp add: spread_sales_def rfm_groups_def rfm_key_def sale_def List.map_filter_def
        series_max_def py_max_def days_between_def)

lemma spread_edges:
  "quartile_edges [1, 2, 3, 4] = [1, 7 / 4, 5 / 2, 13 / 4, 4]"
  "quartile_edges [10, 20, 30, 40] = [10, 35 / 2, 25, 65 / 2, 40]"
  by (simp_all add: quartile_edges_def quantile_def)

lemma spread_qcut:
  "qcut [1, 2, 3, 4] 4 [4, 3, 2, 1] = Inr [Some 4, Some 3, Some 2, Some 1]"
  "qcut [10, 20, 30, 40] 4 [1, 2, 3, 4] = Inr [Some 1, Some 2, Some 3, Some 4]"
  unfolding qcut_4_edges spread_edges Let_def
  by (simp_all add: searchsorted_def)

lemma spread_rfm:
  "calculate_rfm spread_sales \<lparr>ts_value = 432000, ts_month = 1\<rparr> = Inr spread_scored"
proof -
  let ?G = "rfm_groups spread_sales \<lparr>ts_value = 432000, ts_month = 1\<rparr>"
  have ne: "spread_sales \<noteq> []" by (simp add: spread_sales_def)
  have rcol: "map (\<lambda>g. real_of_int (m_recency g)) ?G = [1, 2, 3, 4]"
    unfolding spread_groups by simp
  have fcol: "map (\<lambda>g. real (m_frequency g)) ?G = [1, 1, 1, 1]"
    unfolding spread_groups by simp
  have mcol: "map m_monetary ?G = [10, 20, 30, 40]"
    unfolding spread_groups by simp
  have rscore: "score_column True [1, 2, 3, 4] = Inr [Some 4, Some 3, Some 2, Some 1]"
    using spread_qcut(1) by (simp add: score_column_def)
  have fscore: "score_column False [1, 1, 1, 1] = Inr [Some 1, Some 1, Some 1, Some 1]"
    by (simp add: score_column_def)
  have mscore: "score_column False [10, 20, 30, 40] = Inr [Some 1, Some 2, Some 3, Some 4]"
    using spread_qcut(2) by (simp add: score_column_def)
  show ?thesis
    unfolding calculate_rfm_def Let_def
    unfolding rcol fcol mcol
    unfolding rscore fscore mscore
    unfolding spread_groups spread_scored_def
    using ne by (simp add: with_scores_def str_score_def str_nat.simps)
qed

text \<open>
  \<open>spread_sales\<close> is scored to \<open>spread_scored\<close>, with the recencies 1, 2, 3, 4 scored
  4, 3, 2, 1; its first and last rows have recency 1 and 4 and scores in this order.
\<close>

theorem recency_score_direction_witness:
  "calculate_rfm spread_sales \<lparr>ts_value = 432000, ts_month = 1\<rparr> = Inr spread_scored \<and>
   recency (spread_scored ! 0) = 1 \<and> recency (spread_scored ! 3) = 4 \<and>
   (\<exists>sa sb. recency_score (spread_scored ! 0) = Some sa \<and>
            recency_score (spread_scored ! 3) = Some sb \<and> sb \<le> sa \<and> 1 \<le> sb \<and> sa \<le> 4)"
proof -
  have first: "spread_scored ! 0 \<in> set spread_scored"
    and last: "spread_scored ! 3 \<in> set spread_scored"
    and r0: "recency (spread_scored ! 0) = 1" and r3: "recency (spread_scored ! 3) = 4"
    by (simp_all add: spread_scored_def)
  from r0 r3 have "recency (spread_scored ! 0) < recency (spread_scored ! 3)" by simp
  from recency_score_direction[OF spread_rfm first last this] spread_rfm r0 r3
  show ?thesis by blast
qed

section \<open>The RFM section of the customer tab\<close>

lemma formats_as_float_numeric: "formats_as_float c \<longleftrightarrow> (\<exists>v. c = NumCell v)"
  by (cases c) (simp_all add: formats_as_float_def)

lemma renders_numeric: "renders tbl \<longleftrightarrow> (\<forall>r \<in> set tbl. \<exists>v. growth r = NumCell v)"
  by (simp add: renders_def list_all_iff formats_as_float_numeric)

text \<open>
  The tab with no customer selected, when customer \<^verbatim>\<open>A\<close> has a sale of 100 and a return
  of 100 in the previous period and \<^verbatim>\<open>B\<close> has 50 in the current one: the customer table
  has a blank growth cell, showing it raises, and the tab shows its error message only.
\<close>

lemma blank_growth_stops_tab:
  "plot_customer_analysis \<lparr>ts_value = 864000, ts_month = 1\<rparr>
     [sale ''A'' (Some ''a'') 1 1 100, sale ''A'' (Some ''a'') 2 1 (- 100)]
     [sale ''B'' (Some ''b'') 3 1 50]
     \<lparr>months = [1], customers = [], materials = [], tdvs = []\<rparr> = [TabErrorMessage]"
  by (simp add: plot_customer_analysis_def plot_customer_analysis_with_def apply_filters_def
        renders_def formats_as_float_def customer_table_def sales_table_def merged_rows_def
        merge_outer_def groupby_sum_first_def sale_def total_row_def fillna_row_def
        fillna_str_def row_growth_def float_div_def float_scale_def replace_inf_def
        growth_pct_def fillna_zero_def Let_def)

text \<open>
  C10, as amended. With an empty customer selection the tab shows the same whatever the
  scorer is, so it does not run \<^verbatim>\<open>calculate_rfm\<close>, and it shows no RFM table and no RFM
  error. When both filtered periods are empty it shows the no-data warning only, without
  the prompt to select a customer. Whenever it shows the customer table it shows the
  prompt after it, and nothing else: this is what it does when at least one filtered
  period has a row and the customer table renders.
\<close>

theorem rfm_gated_on_customer_selection:
  assumes "customers flt = []"
  shows "plot_customer_analysis_with scorer now df_prev df_curr flt
           = plot_customer_analysis now df_prev df_curr flt \<and>
         (\<forall>tbl. RfmTable tbl \<notin> set (plot_customer_analysis now df_prev df_curr flt)) \<and>
         RfmErrorMessage \<notin> set (plot_customer_analysis now df_prev df_curr flt) \<and>
         (apply_filters flt df_prev = [] \<and> apply_filters flt df_curr = [] \<longrightarrow>
            plot_customer_analysis now df_prev df_curr flt = [NoDataWarning]) \<and>
         (\<forall>tbl. CustomerSalesTable tbl \<in> set (plot_customer_analysis now df_prev df_curr flt)
            \<longrightarrow> plot_customer_analysis now df_prev df_curr flt
                  = [CustomerSalesTable tbl, SelectCustomerWarning]) \<and>
         (\<not> (apply_filters flt df_prev = [] \<and> apply_filters flt df_curr = []) \<and>
          renders (customer_table (apply_filters flt df_prev) (apply_filters flt df_curr)) \<longrightarrow>
            plot_customer_analysis now df_prev df_curr flt
              = [CustomerSalesTable
                   (customer_table (apply_filters flt df_prev) (apply_filters flt df_curr)),
                 SelectCustomerWarning])"
  using assms
  by (simp add: plot_customer_analysis_def plot_customer_analysis_with_def Let_def)

text \<open>
  No customer selected, January selected, one January line in each period: the tab shows
  the customer table and the prompt.
\<close>

theorem rfm_gated_on_customer_selection_witness:
  "plot_customer_analysis \<lparr>ts_value = 864000, ts_month = 1\<rparr>
     [sale ''A'' (Some ''a'') 1 1 100] [sale ''A'' (Some ''a'') 2 1 150]
     \<lparr>months = [1], customers = [], materials = [], tdvs = []\<rparr>
   = [CustomerSalesTable
        [\<lparr>entity = ''A'', label_prev = StrCell ''a'', amount_prev = 100,
          label_curr = StrCell ''a'', amount_curr = 150, growth = NumCell (Finite 50)\<rparr>,
         \<lparr>entity = [], label_prev = StrCell [], amount_prev = 100,
          label_curr = StrCell [], amount_curr = 150, growth = NumCell (Finite 50)\<rparr>],
      SelectCustomerWarning]"
  using rfm_gated_on_customer_selection[of "\<lparr>months = [1], customers = [], materials = [], tdvs = []\<rparr>"
          calculate_rfm "\<lparr>ts_value = 864000, ts_month = 1\<rparr>"
          "[sale ''A'' (Some ''a'') 1 1 100]" "[sale ''A'' (Some ''a'') 2 1 150]"]
  by (simp add: plot_customer_analysis_def plot_customer_analysis_with_def apply_filters_def
        renders_def formats_as_float_def
        customer_table_def sales_table_def merged_rows_def merge_outer_def
        groupby_sum_first_def sale_def fillna_row_def total_row_def growth_pct_def
        row_growth_def float_div_def float_scale_def replace_inf_def fillna_str_def
        fillna_zero_def Let_def)

text \<open>
  C10 as stated fails in its aside: no customer is selected, but only March is, and the
  two periods have January lines only; the tab shows the no-data warning and returns,
  without the prompt.
\<close>

theorem no_prompt_without_data_counterexample:
  "customers \<lparr>months = [3], customers = [], materials = [], tdvs = []\<rparr> = [] \<and>
   plot_customer_analysis \<lparr>ts_value = 864000, ts_month = 1\<rparr>
     [sale ''A'' (Some ''a'') 1 1 100] [sale ''A'' (Some ''a'') 2 1 150]
     \<lparr>months = [3], customers = [], materials = [], tdvs = []\<rparr> = [NoDataWarning]"
  by (simp add: plot_customer_analysis_def plot_customer_analysis_with_def apply_filters_def
        sale_def Let_def)

end
